theory Spec2Isabelle
  imports Complex_Main "HOL-Library.Sublist"
begin

section \<open>JavaScript numbers and values\<close>

text \<open>
  The program computes with JavaScript numbers: IEEE 754 binary64 values. A number is
  modelled as a finite value (held as the exact real number it denotes), one of the two
  infinities, or NaN. Every arithmetic operation computes the exact result and rounds it
  to the nearest binary64 value, ties to even, as the language does. The sign of zero is
  not represented: \<open>-0\<close> and \<open>+0\<close> are the one value \<open>Fin 0\<close>.
\<close>

datatype jsnum = Fin real | PInf | NInf | NaN

definition pow2 :: "int \<Rightarrow> real" where
  "pow2 e = (if 0 \<le> e then 2 ^ nat e else 1 / 2 ^ nat (- e))"

fun bitlen :: "nat \<Rightarrow> nat" where
  "bitlen n = (if n = 0 then 0 else Suc (bitlen (n div 2)))"

declare bitlen.simps [simp del]

definition ilog2 :: "real \<Rightarrow> int" where
  \<comment> \<open>\<open>\<lfloor>log\<^sub>2 |q|\<rfloor>\<close> for \<open>q \<noteq> 0\<close>\<close>
  "ilog2 q =
     (if 1 \<le> \<bar>q\<bar> then int (bitlen (nat \<lfloor>\<bar>q\<bar>\<rfloor>)) - 1
      else - int (bitlen (nat (\<lceil>1 / \<bar>q\<bar>\<rceil> - 1))))"

definition round_half_even :: "real \<Rightarrow> int" where
  "round_half_even s =
     (let f = \<lfloor>s\<rfloor>; d = s - of_int f
      in if d < 1 / 2 then f
         else if 1 / 2 < d then f + 1
         else if even f then f else f + 1)"

definition ulp_exp :: "real \<Rightarrow> int" where
  \<comment> \<open>exponent of the last place of the 53-bit significand; subnormals share \<open>-1074\<close>\<close>
  "ulp_exp q = (if q = 0 then - 1074 else max (ilog2 q) (- 1022) - 52)"

definition overflow_threshold :: real where
  \<comment> \<open>half-way between the largest binary64 value and \<open>2^1024\<close>\<close>
  "overflow_threshold = 2 ^ 1024 - 2 ^ 970"

definition rnd :: "real \<Rightarrow> jsnum" where
  "rnd q =
     (if overflow_threshold \<le> \<bar>q\<bar> then (if 0 < q then PInf else NInf)
      else Fin (of_int (round_half_even (q / pow2 (ulp_exp q))) * pow2 (ulp_exp q)))"

definition is_double :: "real \<Rightarrow> bool" where
  \<comment> \<open>the real numbers that are binary64 values: rounding leaves them alone\<close>
  "is_double q = (rnd q = Fin q)"

text \<open>The four arithmetic operators, with the IEEE results on infinities and NaN.\<close>

fun js_neg :: "jsnum \<Rightarrow> jsnum" where
  "js_neg (Fin a) = Fin (- a)"
| "js_neg PInf = NInf"
| "js_neg NInf = PInf"
| "js_neg NaN = NaN"

fun js_add :: "jsnum \<Rightarrow> jsnum \<Rightarrow> jsnum" where
  "js_add NaN _ = NaN"
| "js_add _ NaN = NaN"
| "js_add (Fin a) (Fin b) = rnd (a + b)"
| "js_add PInf NInf = NaN"
| "js_add NInf PInf = NaN"
| "js_add PInf _ = PInf"
| "js_add NInf _ = NInf"
| "js_add (Fin a) PInf = PInf"
| "js_add (Fin a) NInf = NInf"

definition js_sub :: "jsnum \<Rightarrow> jsnum \<Rightarrow> jsnum" where
  "js_sub x y = js_add x (js_neg y)"

definition inf_of_sign :: "real \<Rightarrow> jsnum" where
  \<comment> \<open>an infinity with the sign of \<open>a\<close>; NaN where \<open>a\<close> is zero\<close>
  "inf_of_sign a = (if a = 0 then NaN else if 0 < a then PInf else NInf)"

fun js_mul :: "jsnum \<Rightarrow> jsnum \<Rightarrow> jsnum" where
  "js_mul NaN _ = NaN"
| "js_mul _ NaN = NaN"
| "js_mul (Fin a) (Fin b) = rnd (a * b)"
| "js_mul (Fin a) PInf = inf_of_sign a"
| "js_mul (Fin a) NInf = inf_of_sign (- a)"
| "js_mul PInf (Fin b) = inf_of_sign b"
| "js_mul NInf (Fin b) = inf_of_sign (- b)"
| "js_mul PInf PInf = PInf"
| "js_mul PInf NInf = NInf"
| "js_mul NInf PInf = NInf"
| "js_mul NInf NInf = PInf"

fun js_div :: "jsnum \<Rightarrow> jsnum \<Rightarrow> jsnum" where
  "js_div NaN _ = NaN"
| "js_div _ NaN = NaN"
| "js_div (Fin a) (Fin b) = (if b = 0 then inf_of_sign a else rnd (a / b))"
| "js_div (Fin a) PInf = Fin 0"
| "js_div (Fin a) NInf = Fin 0"
| "js_div PInf (Fin b) = (if b < 0 then NInf else PInf)"
| "js_div NInf (Fin b) = (if b < 0 then PInf else NInf)"
| "js_div PInf PInf = NaN"
| "js_div PInf NInf = NaN"
| "js_div NInf PInf = NaN"
| "js_div NInf NInf = NaN"

text \<open>Comparison, \<open>Math.max\<close> and \<open>Math.round\<close>. A comparison with NaN is false.\<close>

fun js_lt :: "jsnum \<Rightarrow> jsnum \<Rightarrow> bool" where
  "js_lt NaN _ = False"
| "js_lt _ NaN = False"
| "js_lt (Fin a) (Fin b) = (a < b)"
| "js_lt (Fin a) PInf = True"
| "js_lt (Fin a) NInf = False"
| "js_lt PInf _ = False"
| "js_lt NInf NInf = False"
| "js_lt NInf _ = True"

fun js_strict_eq :: "jsnum \<Rightarrow> jsnum \<Rightarrow> bool" where
  \<comment> \<open>\<open>x === y\<close> on numbers\<close>
  "js_strict_eq NaN _ = False"
| "js_strict_eq _ NaN = False"
| "js_strict_eq x y = (x = y)"

fun Math_max :: "jsnum \<Rightarrow> jsnum \<Rightarrow> jsnum" where
  "Math_max NaN _ = NaN"
| "Math_max _ NaN = NaN"
| "Math_max (Fin a) (Fin b) = Fin (max a b)"
| "Math_max PInf _ = PInf"
| "Math_max _ PInf = PInf"
| "Math_max NInf y = y"
| "Math_max x NInf = x"

fun Math_round :: "jsnum \<Rightarrow> jsnum" where
  \<comment> \<open>the nearest integer, a tie going up\<close>
  "Math_round (Fin a) = Fin (of_int \<lfloor>a + 1 / 2\<rfloor>)"
| "Math_round x = x"

definition lit :: "real \<Rightarrow> jsnum" where
  \<comment> \<open>a numeric literal of the source denotes the binary64 value nearest to it\<close>
  "lit q = rnd q"

text \<open>
  \<open>x.toFixed(1)\<close> returns a string. \<open>Fixed1 neg n\<close> stands for the decimal string of
  \<open>n\<close> tenths with one digit after the point, with a minus sign when \<open>neg\<close> holds;
  \<open>ToString x\<close> stands for the plain conversion of \<open>x\<close> to a string, which is what
  \<open>toFixed\<close> returns on NaN (\<open>"NaN"\<close>), on the infinities (\<open>"Infinity"\<close>,
  \<open>"-Infinity"\<close>) and from \<open>10^21\<close> on.
\<close>

datatype numtext = Fixed1 bool nat | ToString jsnum

fun toFixed1 :: "jsnum \<Rightarrow> numtext" where
  "toFixed1 (Fin a) =
     (if 10 ^ 21 \<le> \<bar>a\<bar> then ToString (Fin a) else Fixed1 (a < 0) (nat \<lfloor>\<bar>a\<bar> * 10 + 1 / 2\<rfloor>))"
| "toFixed1 x = ToString x"

text \<open>
  The values the program reads from parsed JSON and from its tables: a missing property
  (\<open>Undefined\<close>), \<open>null\<close>, a number, or a member that every object inherits from
  \<open>Object.prototype\<close> (\<open>Builtin\<close>: a function or an object, which is truthy and
  converts to NaN in arithmetic).
\<close>

datatype jsval = Undefined | Null | Num jsnum | Builtin

fun truthy :: "jsval \<Rightarrow> bool" where
  "truthy Undefined = False"
| "truthy Null = False"
| "truthy (Num x) = (x \<noteq> Fin 0 \<and> x \<noteq> NaN)"
| "truthy Builtin = True"

definition js_or :: "jsval \<Rightarrow> jsval \<Rightarrow> jsval" where
  \<comment> \<open>\<open>a || b\<close>\<close>
  "js_or a b = (if truthy a then a else b)"

fun ToNumber :: "jsval \<Rightarrow> jsnum" where
  "ToNumber Undefined = NaN"
| "ToNumber Null = Fin 0"
| "ToNumber (Num x) = x"
| "ToNumber Builtin = NaN"

fun json_num :: "jsnum \<Rightarrow> jsval" where
  \<comment> \<open>\<open>JSON.stringify\<close> writes NaN and the infinities as \<open>null\<close>\<close>
  "json_num (Fin a) = Num (Fin a)"
| "json_num x = Null"

definition Object_prototype :: "string list" where
  \<comment> \<open>the property names every object literal inherits\<close>
  "Object_prototype =
     [''constructor'', ''hasOwnProperty'', ''isPrototypeOf'', ''propertyIsEnumerable'',
      ''toLocaleString'', ''toString'', ''valueOf'', ''__proto__'',
      ''__defineGetter__'', ''__defineSetter__'', ''__lookupGetter__'', ''__lookupSetter__'']"

definition get_prop :: "(string \<times> jsnum) list \<Rightarrow> string \<Rightarrow> jsval" where
  \<comment> \<open>\<open>obj[key]\<close> on an object literal of numbers\<close>
  "get_prop obj k =
     (case map_of obj k of
        Some v \<Rightarrow> Num v
      | None \<Rightarrow> if k \<in> set Object_prototype then Builtin else Undefined)"

fun property_key :: "string option \<Rightarrow> string" where
  \<comment> \<open>a missing field is \<open>undefined\<close>, which as a key is the string \<open>"undefined"\<close>\<close>
  "property_key None = ''undefined''"
| "property_key (Some k) = k"

section \<open>Factor tables\<close>

record 'a by_category =
  transport :: 'a
  energy :: 'a
  food :: 'a
  shopping :: 'a
  waste :: 'a

definition EMISSION_FACTORS :: "(string \<times> jsnum) list by_category" where
  "EMISSION_FACTORS = \<lparr>
     transport =
       [(''car_gasoline'', lit 0.12), (''car_ethanol'', lit 0.05), (''motorcycle'', lit 0.08),
        (''bus'', lit 0.03), (''subway'', lit 0.02), (''bicycle'', lit 0), (''walking'', lit 0),
        (''airplane'', lit 0.18)],
     energy = [(''electricity'', lit 0.15), (''natural_gas'', lit 2.00), (''lpg'', lit 1.50)],
     food =
       [(''beef'', lit 27.0), (''chicken'', lit 6.9), (''pork'', lit 12.1), (''fish'', lit 5.0),
        (''dairy'', lit 3.2), (''vegetables'', lit 2.0), (''grains'', lit 1.5)],
     shopping =
       [(''electronics'', lit 50.0), (''clothing'', lit 15.0), (''furniture'', lit 100.0),
        (''plastic'', lit 5.0), (''paper'', lit 2.0)],
     waste = [(''landfill'', lit 0.5), (''recycled'', lit 0.1), (''composted'', lit 0.05)] \<rparr>"

definition FREQUENCY_FACTORS :: "(string \<times> jsnum) list" where
  "FREQUENCY_FACTORS =
     [(''daily'', lit 30), (''weekly_1'', lit 4), (''weekly_2'', lit 8), (''weekly_3'', lit 12),
      (''weekly_5'', lit 20), (''monthly_1'', lit 1), (''monthly_2'', lit 2),
      (''monthly_4'', lit 4)]"

section \<open>Habits and the emissions recompute\<close>

text \<open>
  A habit as the forms store it. The numeric fields hold what \<open>parseFloat\<close> and
  \<open>parseInt\<close> returned, after the trip through JSON: a number, \<open>null\<close>, or nothing
  when the form of that category does not set the field. Only \<open>frequency\<close> may be
  missing among the string fields. The \<open>id\<close> of a habit plays no part in the recompute.
\<close>

record habit =
  category :: string
  type :: string
  distance :: jsval
  consumption :: jsval
  quantity :: jsval
  frequency :: "string option"

definition factor :: "(string \<times> jsnum) list \<Rightarrow> habit \<Rightarrow> jsnum" where
  \<comment> \<open>\<open>EMISSION_FACTORS.c[habit.type]\<close> as an operand of \<open>*\<close>\<close>
  "factor table h = ToNumber (get_prop table (type h))"

definition habit_emissions :: "habit \<Rightarrow> jsnum" where
  \<comment> \<open>the value of \<open>emissions\<close> at the end of the loop body\<close>
  "habit_emissions h =
     (if category h = ''transport'' then
        let freqFactor = js_or (get_prop FREQUENCY_FACTORS (property_key (frequency h))) (Num (Fin 1));
            monthlyDistance = js_mul (ToNumber (distance h)) (ToNumber freqFactor)
        in js_mul monthlyDistance (factor (transport EMISSION_FACTORS) h)
      else if category h = ''energy'' then
        js_mul (ToNumber (consumption h)) (factor (energy EMISSION_FACTORS) h)
      else if category h = ''food'' then
        let weeklyKg = ToNumber (quantity h);
            monthlyKg = js_mul weeklyKg (Fin 4)
        in js_mul monthlyKg (factor (food EMISSION_FACTORS) h)
      else if category h = ''shopping'' then
        js_mul (ToNumber (quantity h)) (factor (shopping EMISSION_FACTORS) h)
      else if category h = ''waste'' then
        let weeklyWaste = ToNumber (quantity h);
            monthlyWaste = js_mul weeklyWaste (Fin 4)
        in js_mul monthlyWaste (factor (waste EMISSION_FACTORS) h)
      else Fin 0)"

definition accumulate :: "jsnum by_category \<Rightarrow> habit \<Rightarrow> jsnum by_category" where
  \<comment> \<open>one round of \<open>habits.forEach\<close>: the \<open>+=\<close> of the habit's case; no case, no change\<close>
  "accumulate acc h =
     (if category h = ''transport'' then acc\<lparr>transport := js_add (transport acc) (habit_emissions h)\<rparr>
      else if category h = ''energy'' then acc\<lparr>energy := js_add (energy acc) (habit_emissions h)\<rparr>
      else if category h = ''food'' then acc\<lparr>food := js_add (food acc) (habit_emissions h)\<rparr>
      else if category h = ''shopping'' then acc\<lparr>shopping := js_add (shopping acc) (habit_emissions h)\<rparr>
      else if category h = ''waste'' then acc\<lparr>waste := js_add (waste acc) (habit_emissions h)\<rparr>
      else acc)"

definition emissionsByCategory :: "habit list \<Rightarrow> jsnum by_category" where
  "emissionsByCategory hs =
     foldl accumulate \<lparr>transport = Fin 0, energy = Fin 0, food = Fin 0, shopping = Fin 0, waste = Fin 0\<rparr> hs"

definition Object_values :: "'a by_category \<Rightarrow> 'a list" where
  \<comment> \<open>the values in the order the keys were written\<close>
  "Object_values c = [transport c, energy c, food c, shopping c, waste c]"

definition js_sum :: "jsnum list \<Rightarrow> jsnum" where
  \<comment> \<open>\<open>xs.reduce((a, b) => a + b, 0)\<close>\<close>
  "js_sum xs = foldl js_add (Fin 0) xs"

text \<open>
  A monthly aggregate. In memory its numbers are \<open>jsnum\<close>s; in the ledger, which is
  parsed JSON, they are \<open>jsval\<close>s. The default aggregate of \<open>getCurrentEmissions\<close> has
  no \<open>month\<close>.
\<close>

record 'a aggregate =
  month :: "string option"
  total :: 'a
  byCategory :: "'a by_category"

definition recompute :: "string \<Rightarrow> habit list \<Rightarrow> jsnum aggregate" where
  \<comment> \<open>the object \<open>calculateEmissions\<close> builds for the current month\<close>
  "recompute currentMonth hs =
     (let byCat = emissionsByCategory hs;
          totalEmissions = js_sum (Object_values byCat)
      in \<lparr>month = Some currentMonth, total = totalEmissions, byCategory = byCat\<rparr>)"

definition json_by_category :: "jsnum by_category \<Rightarrow> jsval by_category" where
  "json_by_category c =
     \<lparr>transport = json_num (transport c), energy = json_num (energy c), food = json_num (food c),
      shopping = json_num (shopping c), waste = json_num (waste c)\<rparr>"

definition json_aggregate :: "jsnum aggregate \<Rightarrow> jsval aggregate" where
  \<comment> \<open>the aggregate as \<open>saveData\<close> writes it and \<open>getData\<close> reads it back\<close>
  "json_aggregate a = \<lparr>month = month a, total = json_num (total a), byCategory = json_by_category (byCategory a)\<rparr>"

section \<open>Weekly plans\<close>

text \<open>
  A goal and a weekly plan, with the fields the tracker reads and writes (\<open>createdAt\<close>,
  \<open>weekStart\<close> and \<open>weekEnd\<close> are dates it only stores). The \<open>id\<close> is the
  creation time in milliseconds.
\<close>

record goal =
  goal_value :: string
  completed :: bool

record plan =
  plan_id :: int
  goals :: "goal list"
  progress :: jsnum
  plan_completed :: bool

section \<open>The stored document\<close>

text \<open>
  The document under the key \<open>carbonScopeData\<close>, as \<open>getData\<close> parses it. Each
  operation reads the whole document, changes it and writes it back; the model passes
  the document in and returns the new one. The current month and the current time come
  from the clock and are parameters.
\<close>

record store =
  habits :: "habit list"
  emissions :: "jsval aggregate list"
  weeklyPlans :: "plan list"
  currentPlan :: "int option"

definition init :: store where
  "init = \<lparr>habits = [], emissions = [], weeklyPlans = [], currentPlan = None\<rparr>"

fun findIndex :: "('a \<Rightarrow> bool) \<Rightarrow> 'a list \<Rightarrow> nat option" where
  \<comment> \<open>\<open>None\<close> is the \<open>-1\<close> of \<open>Array.prototype.findIndex\<close>\<close>
  "findIndex P [] = None"
| "findIndex P (x # xs) = (if P x then Some 0 else map_option Suc (findIndex P xs))"

definition calculateEmissions :: "string \<Rightarrow> store \<Rightarrow> jsnum \<times> store" where
  "calculateEmissions currentMonth data =
     (let entry = recompute currentMonth (habits data);
          existingIndex = findIndex (\<lambda>e. month e = Some currentMonth) (emissions data);
          ledger = (case existingIndex of
                      Some i \<Rightarrow> (emissions data)[i := json_aggregate entry]
                    | None \<Rightarrow> emissions data @ [json_aggregate entry])
      in (total entry, data\<lparr>emissions := ledger\<rparr>))"

definition getCurrentEmissions :: "string \<Rightarrow> store \<Rightarrow> jsval aggregate" where
  "getCurrentEmissions currentMonth data =
     (case find (\<lambda>e. month e = Some currentMonth) (emissions data) of
        Some e \<Rightarrow> e
      | None \<Rightarrow> \<lparr>month = None, total = Num (Fin 0),
                  byCategory = \<lparr>transport = Undefined, energy = Undefined, food = Undefined,
                                 shopping = Undefined, waste = Undefined\<rparr>\<rparr>)"

definition getMonthlyHistory :: "store \<Rightarrow> jsval aggregate list" where
  "getMonthlyHistory data = emissions data"

definition addWeeklyPlan :: "int \<Rightarrow> goal list \<Rightarrow> store \<Rightarrow> plan \<times> store" where
  \<comment> \<open>\<open>now\<close> is \<open>Date.now()\<close>\<close>
  "addWeeklyPlan now gs data =
     (let p = \<lparr>plan_id = now, goals = map (\<lambda>g. g\<lparr>completed := False\<rparr>) gs,
               progress = Fin 0, plan_completed = False\<rparr>
      in (p, data\<lparr>weeklyPlans := weeklyPlans data @ [p], currentPlan := Some now\<rparr>))"

definition updatePlanProgress :: "int \<Rightarrow> int \<Rightarrow> bool \<Rightarrow> store \<Rightarrow> store" where
  "updatePlanProgress planId goalIndex c data =
     (case findIndex (\<lambda>p. plan_id p = planId) (weeklyPlans data) of
        None \<Rightarrow> data
      | Some planIndex \<Rightarrow>
          let p = weeklyPlans data ! planIndex in
          if 0 \<le> goalIndex \<and> goalIndex < int (length (goals p)) then
            let gs = (goals p)[nat goalIndex := (goals p ! nat goalIndex)\<lparr>completed := c\<rparr>];
                completedGoals = length (filter completed gs);
                p1 = p\<lparr>goals := gs,
                       progress := Math_round (js_mul (js_div (Fin (of_nat completedGoals))
                                                            (Fin (of_nat (length gs)))) (Fin 100))\<rparr>;
                p2 = (if completedGoals = length gs then p1\<lparr>plan_completed := True\<rparr> else p1)
            in data\<lparr>weeklyPlans := (weeklyPlans data)[planIndex := p2]\<rparr>
          else data)"

definition getPreviousPlans :: "store \<Rightarrow> plan list" where
  "getPreviousPlans data = filter (\<lambda>p. Some (plan_id p) \<noteq> currentPlan data) (weeklyPlans data)"

definition getCurrentPlan :: "store \<Rightarrow> plan option" where
  \<comment> \<open>\<open>null\<close> when \<open>currentPlan\<close> is falsy: \<open>null\<close> or \<open>0\<close>\<close>
  "getCurrentPlan data =
     (case currentPlan data of
        None \<Rightarrow> None
      | Some i \<Rightarrow> if i = 0 then None else find (\<lambda>p. plan_id p = i) (weeklyPlans data))"

definition loadPreviousPlans :: "store \<Rightarrow> plan list" where
  \<comment> \<open>the plans the page lists: sorted by \<open>b.id - a.id\<close>, the first five\<close>
  "loadPreviousPlans data = take 5 (sort_key (\<lambda>p. - plan_id p) (getPreviousPlans data))"

section \<open>Scenario projection\<close>

text \<open>
  The four sliders are range inputs: each holds the decimal string of an integer, which
  \<open>parseInt\<close> turns into that number. The record holds the four integers.
\<close>

record sliders =
  carReduction_input :: int
  meatReduction_input :: int
  energyReduction_input :: int
  recyclingIncrease_input :: int

definition parseInt :: "int \<Rightarrow> jsnum" where
  "parseInt n = rnd (of_int n)"

text \<open>
  The object the click handler of \<open>createScenarioBtn\<close> hands to \<open>addScenario\<close>
  (without its \<open>description\<close>, a sentence for display).
\<close>

record scenario =
  name :: string
  baselineEmissions :: jsval
  projectedEmissions :: jsnum
  reductionPercent :: numtext
  reductionKg :: jsnum
  carReduction :: jsnum
  meatDays :: jsnum
  energyReduction :: jsnum
  recyclingIncrease :: jsnum

definition createScenario :: "string \<Rightarrow> sliders \<Rightarrow> jsval aggregate \<Rightarrow> scenario option" where
  \<comment> \<open>\<open>None\<close>: the name is empty, the handler returns after the notification\<close>
  "createScenario nm sl currentEmissions =
     (if nm = [] then None
      else
        let carReduction = js_div (parseInt (carReduction_input sl)) (Fin 100);
            meatDays = parseInt (meatReduction_input sl);
            energyReduction = js_div (parseInt (energyReduction_input sl)) (Fin 100);
            recyclingIncrease = js_div (parseInt (recyclingIncrease_input sl)) (Fin 100);
            projectedTotal0 = ToNumber (js_or (total currentEmissions) (Num (Fin 0)));
            transportReduction =
              js_mul (js_mul (ToNumber (js_or (transport (byCategory currentEmissions)) (Num (Fin 0))))
                             (lit 0.5)) carReduction;
            projectedTotal1 = js_sub projectedTotal0 transportReduction;
            foodReduction = js_mul (js_mul meatDays (lit 0.5)) (Fin 4);
            projectedTotal2 = js_sub projectedTotal1 foodReduction;
            energyReductionKg =
              js_mul (ToNumber (js_or (energy (byCategory currentEmissions)) (Num (Fin 0)))) energyReduction;
            projectedTotal3 = js_sub projectedTotal2 energyReductionKg;
            wasteReduction =
              js_mul (js_mul (ToNumber (js_or (waste (byCategory currentEmissions)) (Num (Fin 0))))
                             (lit 0.8)) recyclingIncrease;
            projectedTotal = js_sub projectedTotal3 wasteReduction;
            reductionPercent =
              toFixed1 (js_mul (js_div (js_sub (ToNumber (total currentEmissions)) projectedTotal)
                                       (ToNumber (total currentEmissions))) (Fin 100))
        in Some \<lparr>name = nm,
                 baselineEmissions = total currentEmissions,
                 projectedEmissions = projectedTotal,
                 reductionPercent = reductionPercent,
                 reductionKg = js_sub (ToNumber (total currentEmissions)) projectedTotal,
                 carReduction = carReduction,
                 meatDays = meatDays,
                 energyReduction = energyReduction,
                 recyclingIncrease = recyclingIncrease\<rparr>)"

text \<open>
  What \<open>updateScenarioResults\<close> writes into the page: the current total, the projected
  total, the reduction in percent (a string of \<open>toFixed\<close>, or the number \<open>0\<close>) and
  in kilograms.
\<close>

datatype percent = Text numtext | Number jsnum

record preview =
  shown_currentEmissions :: jsnum
  shown_projectedEmissions :: jsnum
  shown_reductionPercent :: percent
  shown_reductionKg :: jsnum

definition updateScenarioResults :: "sliders \<Rightarrow> jsval aggregate \<Rightarrow> preview" where
  "updateScenarioResults sl currentEmissions =
     (let totalEmissions = ToNumber (js_or (total currentEmissions) (Num (Fin 0)));
          carReduction = js_div (parseInt (carReduction_input sl)) (Fin 100);
          meatDays = parseInt (meatReduction_input sl);
          energyReduction = js_div (parseInt (energyReduction_input sl)) (Fin 100);
          recyclingIncrease = js_div (parseInt (recyclingIncrease_input sl)) (Fin 100);
          transportReduction =
            js_mul (js_mul (ToNumber (js_or (transport (byCategory currentEmissions)) (Num (Fin 0))))
                           (lit 0.5)) carReduction;
          projectedTotal1 = js_sub totalEmissions transportReduction;
          foodReduction = js_mul (js_mul meatDays (lit 0.5)) (Fin 4);
          projectedTotal2 = js_sub projectedTotal1 foodReduction;
          energyReductionKg =
            js_mul (ToNumber (js_or (energy (byCategory currentEmissions)) (Num (Fin 0)))) energyReduction;
          projectedTotal3 = js_sub projectedTotal2 energyReductionKg;
          wasteReduction =
            js_mul (js_mul (ToNumber (js_or (waste (byCategory currentEmissions)) (Num (Fin 0))))
                           (lit 0.8)) recyclingIncrease;
          projectedTotal4 = js_sub projectedTotal3 wasteReduction;
          projectedTotal = Math_max (Fin 0) projectedTotal4;
          reductionKg = js_sub totalEmissions projectedTotal;
          reductionPercent =
            (if js_lt (Fin 0) totalEmissions
             then Text (toFixed1 (js_mul (js_div reductionKg totalEmissions) (Fin 100)))
             else Number (Fin 0))
      in \<lparr>shown_currentEmissions = totalEmissions,
          shown_projectedEmissions = projectedTotal,
          shown_reductionPercent = reductionPercent,
          shown_reductionKg = reductionKg\<rparr>)"

section \<open>Notions used to state the properties\<close>

definition by_category_get :: "string \<Rightarrow> 'a by_category \<Rightarrow> 'a option" where
  \<comment> \<open>\<open>obj[c]\<close> on an object with the five category keys; \<open>None\<close> for any other key\<close>
  "by_category_get c obj =
     (if c = ''transport'' then Some (transport obj)
      else if c = ''energy'' then Some (energy obj)
      else if c = ''food'' then Some (food obj)
      else if c = ''shopping'' then Some (shopping obj)
      else if c = ''waste'' then Some (waste obj)
      else None)"

fun stored :: "jsval \<Rightarrow> bool" where
  \<comment> \<open>what a numeric property of the parsed document can hold: nothing, \<open>null\<close>, or a
      finite binary64 value (\<open>saveData\<close> has written every other number as \<open>null\<close>)\<close>
  "stored Undefined = True"
| "stored Null = True"
| "stored (Num (Fin a)) = is_double a"
| "stored (Num x) = False"
| "stored Builtin = False"

definition baseline :: "jsval \<Rightarrow> jsnum" where
  \<comment> \<open>a baseline figure as both scenario paths read it: \<open>v || 0\<close>\<close>
  "baseline v = ToNumber (js_or v (Num (Fin 0)))"

definition spec_projected :: "sliders \<Rightarrow> jsval aggregate \<Rightarrow> jsnum" where
  \<comment> \<open>the projection formula in the specification's words, each fraction a slider value
      over \<open>100\<close>\<close>
  "spec_projected sl b =
     (let transportCut = js_mul (js_mul (baseline (transport (byCategory b))) (lit 0.5))
                                (js_div (parseInt (carReduction_input sl)) (Fin 100));
          foodCut = js_mul (js_mul (parseInt (meatReduction_input sl)) (lit 0.5)) (Fin 4);
          energyCut = js_mul (baseline (energy (byCategory b)))
                             (js_div (parseInt (energyReduction_input sl)) (Fin 100));
          wasteCut = js_mul (js_mul (baseline (waste (byCategory b))) (lit 0.8))
                            (js_div (parseInt (recyclingIncrease_input sl)) (Fin 100))
      in js_sub (js_sub (js_sub (js_sub (baseline (total b)) transportCut) foodCut) energyCut) wasteCut)"

section \<open>Example data\<close>

text \<open>Habits as the transport and food forms build them.\<close>

definition car :: habit where
  "car = \<lparr>category = ''transport'', type = ''car_gasoline'', distance = Num (Fin 20),
          consumption = Undefined, quantity = Num (Fin 20), frequency = Some ''daily''\<rparr>"

definition beef :: habit where
  "beef = \<lparr>category = ''food'', type = ''beef'', distance = Undefined,
           consumption = Undefined, quantity = Num (Fin 1), frequency = None\<rparr>"

definition tofu :: habit where
  \<comment> \<open>a food habit whose type the food table does not list\<close>
  "tofu = \<lparr>category = ''food'', type = ''tofu'', distance = Undefined,
           consumption = Undefined, quantity = Num (Fin 1), frequency = None\<rparr>"

definition returned_beef :: habit where
  \<comment> \<open>a food habit with a negative quantity, which \<open>parseFloat\<close> accepts\<close>
  "returned_beef = \<lparr>category = ''food'', type = ''beef'', distance = Undefined,
                    consumption = Undefined, quantity = Num (Fin (- 1)), frequency = None\<rparr>"

definition car_no_frequency :: habit where
  "car_no_frequency = car\<lparr>frequency := None\<rparr>"

definition car_toString :: habit where
  \<comment> \<open>a frequency that names a member every object inherits\<close>
  "car_toString = car\<lparr>frequency := Some ''toString''\<rparr>"

text \<open>Ledgers: April recomputed with one habit; the aggregates stored for two habit lists.\<close>

definition april :: store where
  "april = snd (calculateEmissions ''2024-04'' (init\<lparr>habits := [car]\<rparr>))"

definition may_month :: "jsval aggregate" where
  "may_month = json_aggregate (recompute ''2024-05'' [car, beef])"

definition negative_month :: "jsval aggregate" where
  "negative_month = json_aggregate (recompute ''2024-05'' [returned_beef])"

text \<open>Slider positions.\<close>

definition no_sliders :: sliders where
  "no_sliders = \<lparr>carReduction_input = 0, meatReduction_input = 0, energyReduction_input = 0,
                 recyclingIncrease_input = 0\<rparr>"

definition one_meat_free_day :: sliders where
  "one_meat_free_day = \<lparr>carReduction_input = 0, meatReduction_input = 1,
                        energyReduction_input = 0, recyclingIncrease_input = 0\<rparr>"

text \<open>A plan of four goals, its goals ticked one after the other, and three plans in a row.\<close>

definition four_goals :: "goal list" where
  "four_goals =
     [\<lparr>goal_value = ''transport_public'', completed = False\<rparr>,
      \<lparr>goal_value = ''food_vegetarian'', completed = False\<rparr>,
      \<lparr>goal_value = ''energy_saving'', completed = False\<rparr>,
      \<lparr>goal_value = ''waste_recycling'', completed = False\<rparr>]"

definition week1 :: store where
  "week1 = snd (addWeeklyPlan 1000 four_goals init)"

definition two_done :: store where
  "two_done = updatePlanProgress 1000 1 True (updatePlanProgress 1000 0 True week1)"

definition four_done :: store where
  "four_done = updatePlanProgress 1000 3 True (updatePlanProgress 1000 2 True two_done)"

definition one_undone :: store where
  "one_undone = updatePlanProgress 1000 3 False four_done"

definition three_weeks :: store where
  "three_weeks = snd (addWeeklyPlan 3000 four_goals (snd (addWeeklyPlan 2000 four_goals week1)))"

section \<open>Arithmetic facts\<close>

lemmas rnd_eval =
  rnd_def ulp_exp_def ilog2_def round_half_even_def pow2_def overflow_threshold_def Let_def
  bitlen.simps lit_def

lemma js_add_NaN [simp]: "js_add x NaN = NaN"
  by (cases x) simp_all

lemma js_mul_NaN [simp]: "js_mul x NaN = NaN"
  by (cases x) simp_all

lemma foldl_js_add_NaN [simp]: "foldl js_add NaN xs = NaN"
  by (induction xs) simp_all

lemma foldl_js_add_mem_NaN: "NaN \<in> set xs \<Longrightarrow> foldl js_add a xs = NaN"
  by (induction xs arbitrary: a) auto

lemma rnd_0 [simp]: "rnd 0 = Fin 0"
  by (simp add: rnd_def overflow_threshold_def round_half_even_def)

text \<open>
  The rounding function on known binary64 results: \<open>0.1 + 0.2\<close> is not \<open>0.3\<close>,
  \<open>23 / 40 * 100\<close> is just below \<open>57.5\<close>, a tie goes to the even significand, and
  \<open>2^1024\<close> overflows.
\<close>

lemma rnd_checks:
  "js_add (lit 0.1) (lit 0.2) = Fin (1351079888211149 / 4503599627370496)"
  "lit 0.3 = Fin (5404319552844595 / 18014398509481984)"
  "js_mul (js_div (Fin 23) (Fin 40)) (Fin 100) = Fin (8092405580431359 / 140737488355328)"
  "rnd (1 / 3) = Fin (6004799503160661 / 18014398509481984)"
  "rnd (2 ^ 53 + 1) = Fin (2 ^ 53)"
  "rnd (2 ^ 53 + 3) = Fin (2 ^ 53 + 4)"
  "rnd (2 ^ 1024) = PInf"
  "rnd (- (2 ^ 1024)) = NInf"
  by (simp_all add: rnd_eval)

lemma rnd_values:
  "rnd 1 = Fin 1" "rnd 2 = Fin 2" "rnd (- 2) = Fin (- 2)" "rnd (- 4) = Fin (- 4)"
  "rnd 20 = Fin 20" "rnd 25 = Fin 25" "rnd 50 = Fin 50" "rnd 75 = Fin 75" "rnd 100 = Fin 100"
  "rnd (- 108) = Fin (- 108)"
  "rnd (1 / 4) = Fin (1 / 4)" "rnd (1 / 2) = Fin (1 / 2)" "rnd (3 / 4) = Fin (3 / 4)"
  "rnd (5404319552844595 / 2251799813685248) = Fin (5404319552844595 / 2251799813685248)"
  by (simp_all add: rnd_eval)

lemma lit_values:
  "lit (1 / 2) = Fin (1 / 2)"
  "lit (4 / 5) = Fin (3602879701896397 / 4503599627370496)"
  "lit (3 / 25) = Fin (1080863910568919 / 9007199254740992)"
  "lit 27 = Fin 27"
  by (simp_all add: rnd_eval)

lemma rnd_72: "rnd 72 = Fin 72"
  by (simp add: rnd_eval)

lemma rnd_108: "rnd 108 = Fin 108"
  by (simp add: rnd_eval)

lemma rnd_180: "rnd 180 = Fin 180"
  by (simp add: rnd_eval)

lemma is_double_values: "is_double 0" "is_double 20" "is_double 72" "is_double 180" "is_double (- 108)"
  by (simp_all add: is_double_def rnd_values rnd_72 rnd_180)

lemma is_double_bound: "is_double a \<Longrightarrow> \<bar>a\<bar> < overflow_threshold"
  by (auto simp: is_double_def rnd_def split: if_splits)

lemma rnd_finite: "\<bar>a\<bar> < overflow_threshold \<Longrightarrow> \<exists>v. rnd a = Fin v"
  by (simp add: rnd_def)

lemma mul_mul_zero:
  assumes "is_double a" and "\<bar>c\<bar> \<le> 1"
  shows "js_mul (js_mul (Fin a) (Fin c)) (Fin 0) = Fin 0"
proof -
  have "\<bar>a * c\<bar> \<le> \<bar>a\<bar>"
    using assms(2) by (simp add: abs_mult mult_left_le)
  then have "\<bar>a * c\<bar> < overflow_threshold"
    using is_double_bound [OF assms(1)] by simp
  then obtain v where "rnd (a * c) = Fin v"
    using rnd_finite by blast
  then show ?thesis by simp
qed


section \<open>The emissions recompute\<close>

text \<open>
  The loop keeps one accumulator per category, and a habit touches only the accumulator
  of its own category: each accumulator ends as the left-to-right sum of the emissions of
  the habits of its category, in the order of the list.
\<close>

lemma foldl_accumulate:
  "by_category_get c (foldl accumulate acc hs) =
     map_option (\<lambda>a. foldl js_add a (map habit_emissions (filter (\<lambda>h. category h = c) hs)))
                (by_category_get c acc)"
proof (induction hs arbitrary: acc)
  case Nil
  show ?case by (simp add: option.map_ident)
next
  case (Cons h hs)
  have step: "by_category_get c (accumulate acc h) =
      map_option (\<lambda>a. if category h = c then js_add a (habit_emissions h) else a)
                 (by_category_get c acc)"
    by (simp add: accumulate_def by_category_get_def)
  show ?case
    by (simp add: Cons.IH step option.map_comp comp_def cong: if_cong)
qed

lemma category_total:
  "by_category_get c (emissionsByCategory hs) =
     map_option (\<lambda>a. js_sum (map habit_emissions (filter (\<lambda>h. category h = c) hs)))
       (by_category_get c
          \<lparr>transport = Fin 0, energy = Fin 0, food = Fin 0, shopping = Fin 0, waste = Fin (0::real)\<rparr>)"
  unfolding emissionsByCategory_def foldl_accumulate js_sum_def
  by (simp add: by_category_get_def)

lemma category_totals:
  "transport (emissionsByCategory hs) =
     js_sum (map habit_emissions (filter (\<lambda>h. category h = ''transport'') hs))"
  "energy (emissionsByCategory hs) =
     js_sum (map habit_emissions (filter (\<lambda>h. category h = ''energy'') hs))"
  "food (emissionsByCategory hs) =
     js_sum (map habit_emissions (filter (\<lambda>h. category h = ''food'') hs))"
  "shopping (emissionsByCategory hs) =
     js_sum (map habit_emissions (filter (\<lambda>h. category h = ''shopping'') hs))"
  "waste (emissionsByCategory hs) =
     js_sum (map habit_emissions (filter (\<lambda>h. category h = ''waste'') hs))"
  using category_total [of "''transport''" hs] category_total [of "''energy''" hs]
    category_total [of "''food''" hs] category_total [of "''shopping''" hs]
    category_total [of "''waste''" hs]
  by (simp_all add: by_category_get_def)

lemma unknown_type_NaN:
  assumes "by_category_get (category h) EMISSION_FACTORS = Some table"
    and "type h \<notin> fst ` set table"
  shows "habit_emissions h = NaN"
proof -
  have "map_of table (type h) = None"
    using assms(2) by (simp add: map_of_eq_None_iff)
  then have "factor table h = NaN"
    by (simp add: factor_def get_prop_def)
  then show ?thesis
    using assms(1)
    by (auto simp: habit_emissions_def by_category_get_def Let_def split: if_splits)
qed

lemma by_category_get_mem: "by_category_get c obj = Some v \<Longrightarrow> v \<in> set (Object_values obj)"
  by (auto simp: by_category_get_def Object_values_def split: if_splits)

lemma by_category_get_zero:
  "by_category_get c (obj :: 'a by_category) = Some v \<Longrightarrow>
   by_category_get c \<lparr>transport = z, energy = z, food = z, shopping = z, waste = z\<rparr> = Some z"
  by (auto simp: by_category_get_def split: if_splits)

lemma beef_emissions: "habit_emissions beef = Fin 108"
  by (simp add: habit_emissions_def beef_def factor_def get_prop_def EMISSION_FACTORS_def rnd_eval)

lemma car_emissions: "habit_emissions car = Fin 72"
  by (simp add: habit_emissions_def car_def factor_def get_prop_def FREQUENCY_FACTORS_def
      EMISSION_FACTORS_def js_or_def rnd_eval)

lemma tofu_unknown:
  "by_category_get (category tofu) EMISSION_FACTORS = Some (food EMISSION_FACTORS)"
  "type tofu \<notin> fst ` set (food EMISSION_FACTORS)"
  by (simp_all add: by_category_get_def tofu_def EMISSION_FACTORS_def)

lemma car_beef_total: "total (recompute m [car, beef]) = Fin 180"
  by (simp add: category_totals car_emissions beef_emissions recompute_def Object_values_def
      js_sum_def rnd_72 rnd_108 rnd_180)
     (simp add: car_def beef_def)

lemma car_beef_tofu_month:
  "total (recompute ''2024-05'' [car, beef, tofu]) = NaN"
  "total (json_aggregate (recompute ''2024-05'' [car, beef, tofu])) = Null"
  "map ToNumber (Object_values (byCategory (json_aggregate (recompute ''2024-05'' [car, beef, tofu])))) =
     [Fin 72, Fin 0, Fin 0, Fin 0, Fin 0]"
proof -
  have t: "habit_emissions tofu = NaN"
    using tofu_unknown by (rule unknown_type_NaN)
  have c: "category car = ''transport''" "category beef = ''food''" "category tofu = ''food''"
    by (simp_all add: car_def beef_def tofu_def)
  show "total (recompute ''2024-05'' [car, beef, tofu]) = NaN"
    by (simp add: recompute_def Let_def Object_values_def category_totals js_sum_def t c
        car_emissions beef_emissions rnd_72 rnd_108)
  then show "total (json_aggregate (recompute ''2024-05'' [car, beef, tofu])) = Null"
    by (simp add: json_aggregate_def)
  show "map ToNumber
          (Object_values (byCategory (json_aggregate (recompute ''2024-05'' [car, beef, tofu])))) =
        [Fin 72, Fin 0, Fin 0, Fin 0, Fin 0]"
    by (simp add: recompute_def Let_def Object_values_def category_totals js_sum_def t c
        car_emissions beef_emissions rnd_72 rnd_108 json_aggregate_def json_by_category_def)
qed

text \<open>A sum is a finite number only when every summand is; such numbers pass through JSON.\<close>

lemma js_add_Fin: "js_add x y = Fin t \<Longrightarrow> \<exists>a b. x = Fin a \<and> y = Fin b"
  by (cases x; cases y; simp)

lemma foldl_js_add_Fin:
  "foldl js_add a xs = Fin t \<Longrightarrow> (\<exists>b. a = Fin b) \<and> (\<forall>x\<in>set xs. \<exists>b. x = Fin b)"
proof (induction xs arbitrary: a)
  case Nil
  then show ?case by simp
next
  case (Cons x xs)
  from Cons.IH [of "js_add a x"] Cons.prems
  have ih: "(\<exists>b. js_add a x = Fin b) \<and> (\<forall>y\<in>set xs. \<exists>b. y = Fin b)" by simp
  then obtain b where "js_add a x = Fin b" by blast
  from js_add_Fin [OF this] ih show ?case by simp
qed

lemma Object_values_json:
  "Object_values (json_by_category c) = map json_num (Object_values c)"
  by (simp add: Object_values_def json_by_category_def)

lemma ledger_entry_additive:
  assumes "total (recompute m hs) = Fin t"
  shows "ToNumber (total (json_aggregate (recompute m hs))) =
     js_sum (map ToNumber (Object_values (byCategory (json_aggregate (recompute m hs)))))"
proof -
  define vs where "vs = Object_values (emissionsByCategory hs)"
  have s: "js_sum vs = Fin t"
    using assms by (simp add: recompute_def Let_def vs_def)
  then have "\<forall>x\<in>set vs. \<exists>b. x = Fin b"
    unfolding js_sum_def by (blast dest: foldl_js_add_Fin)
  then have "map (\<lambda>x. ToNumber (json_num x)) vs = vs"
    by (intro map_idI) auto
  then have "map ToNumber (map json_num vs) = vs"
    by (simp add: comp_def)
  moreover have "total (json_aggregate (recompute m hs)) = json_num (js_sum vs)"
    by (simp add: json_aggregate_def recompute_def Let_def vs_def)
  moreover have "Object_values (byCategory (json_aggregate (recompute m hs))) = map json_num vs"
    by (simp add: json_aggregate_def recompute_def Let_def vs_def Object_values_json)
  ultimately show ?thesis
    by (simp add: s)
qed

lemma js_strict_eq_refl: "js_strict_eq x x = (x \<noteq> NaN)"
  by (cases x) simp_all

text \<open>
  C1, as the claim states it, fails: for the habits \<open>car\<close>, \<open>beef\<close> and \<open>tofu\<close> the
  total of the aggregate is NaN, which the comparison \<open>===\<close> of the program takes to
  differ from the sum of the five category values, itself NaN; and the entry the ledger
  keeps has the total \<open>null\<close> while its five category values add up to \<open>72\<close>.
\<close>

theorem additivity_NaN_counterexample:
  "total (recompute ''2024-05'' [car, beef, tofu]) = NaN
   \<and> \<not> js_strict_eq (total (recompute ''2024-05'' [car, beef, tofu]))
         (js_sum (Object_values (byCategory (recompute ''2024-05'' [car, beef, tofu]))))
   \<and> total (json_aggregate (recompute ''2024-05'' [car, beef, tofu])) = Null
   \<and> js_sum (map ToNumber
         (Object_values (byCategory (json_aggregate (recompute ''2024-05'' [car, beef, tofu]))))) =
       Fin 72"
  by (simp add: car_beef_tofu_month js_sum_def rnd_72)

text \<open>
  C1, amended. For every list of habits whose recomputed total is not NaN, the total of
  the aggregate equals, under \<open>===\<close>, the sum from \<open>0\<close> and in key order of the five
  values of its \<open>byCategory\<close> object, each of which is the sum of the emissions of the
  habits of its category; and where the total is a finite number, the entry that the
  ledger keeps is additive as well.
\<close>

theorem recompute_additive:
  assumes "total (recompute m hs) \<noteq> NaN"
  shows "js_strict_eq (total (recompute m hs))
           (js_sum (Object_values (byCategory (recompute m hs))))
   \<and> Object_values (byCategory (recompute m hs)) =
       map (\<lambda>c. js_sum (map habit_emissions (filter (\<lambda>h. category h = c) hs)))
         [''transport'', ''energy'', ''food'', ''shopping'', ''waste'']
   \<and> (\<forall>t. total (recompute m hs) = Fin t \<longrightarrow>
         ToNumber (total (json_aggregate (recompute m hs))) =
         js_sum (map ToNumber (Object_values (byCategory (json_aggregate (recompute m hs))))))"
proof -
  have "total (recompute m hs) = js_sum (Object_values (byCategory (recompute m hs)))"
    by (simp add: recompute_def Let_def)
  then have "js_strict_eq (total (recompute m hs))
      (js_sum (Object_values (byCategory (recompute m hs))))"
    using assms by (simp add: js_strict_eq_refl)
  moreover have "Object_values (byCategory (recompute m hs)) =
       map (\<lambda>c. js_sum (map habit_emissions (filter (\<lambda>h. category h = c) hs)))
         [''transport'', ''energy'', ''food'', ''shopping'', ''waste'']"
    by (simp add: recompute_def Let_def Object_values_def category_totals)
  ultimately show ?thesis
    using ledger_entry_additive by blast
qed

theorem recompute_additive_witness:
  "total (recompute ''2024-05'' [car, beef]) \<noteq> NaN
   \<and> total (recompute ''2024-05'' [car, beef]) = Fin 180
   \<and> js_strict_eq (total (recompute ''2024-05'' [car, beef]))
         (js_sum (Object_values (byCategory (recompute ''2024-05'' [car, beef]))))
   \<and> ToNumber (total (json_aggregate (recompute ''2024-05'' [car, beef]))) =
       js_sum (map ToNumber
         (Object_values (byCategory (json_aggregate (recompute ''2024-05'' [car, beef])))))"
proof -
  have t: "total (recompute ''2024-05'' [car, beef]) = Fin 180"
    by (rule car_beef_total)
  then have n: "total (recompute ''2024-05'' [car, beef]) \<noteq> NaN"
    by simp
  show ?thesis
    using recompute_additive [OF n] t n by blast
qed

text \<open>
  C2, as the claim states it, fails: the food habit \<open>tofu\<close>, whose type is not a key of
  the food table, does not contribute zero. With it the food total and the grand total
  are NaN; without it they are \<open>108\<close>.
\<close>

theorem unknown_type_not_zero_counterexample:
  "by_category_get (category tofu) EMISSION_FACTORS = Some (food EMISSION_FACTORS)
   \<and> type tofu \<notin> fst ` set (food EMISSION_FACTORS)
   \<and> food (byCategory (recompute ''2024-05'' [beef, tofu])) = NaN
   \<and> food (byCategory (recompute ''2024-05'' [beef])) = Fin 108
   \<and> total (recompute ''2024-05'' [beef, tofu]) = NaN
   \<and> total (recompute ''2024-05'' [beef]) = Fin 108"
proof -
  have t: "habit_emissions tofu = NaN"
    using tofu_unknown by (rule unknown_type_NaN)
  have c: "category beef = ''food''" "category tofu = ''food''"
    by (simp_all add: beef_def tofu_def)
  show ?thesis
    using tofu_unknown
    by (simp add: recompute_def Let_def Object_values_def category_totals js_sum_def
        beef_emissions rnd_108 t c)
qed

text \<open>
  C2, amended. For every habit whose category is one of the five and whose type is not a
  key of the factor table of that category, the recompute gives the habit the emissions
  NaN; wherever the habit stands in the list, the total of its category and the grand
  total are NaN, which the ledger stores as \<open>null\<close>, and the totals of the other
  categories are what they are without the habit.
\<close>

theorem unknown_type_poisons_totals:
  assumes "by_category_get (category h) EMISSION_FACTORS = Some table"
    and "type h \<notin> fst ` set table"
  shows "habit_emissions h = NaN
     \<and> by_category_get (category h) (byCategory (recompute m (xs @ h # ys))) = Some NaN
     \<and> total (recompute m (xs @ h # ys)) = NaN
     \<and> total (json_aggregate (recompute m (xs @ h # ys))) = Null
     \<and> (\<forall>c. c \<noteq> category h \<longrightarrow>
           by_category_get c (byCategory (recompute m (xs @ h # ys))) =
           by_category_get c (byCategory (recompute m (xs @ ys))))"
proof -
  have e: "habit_emissions h = NaN"
    using assms by (rule unknown_type_NaN)
  have "js_sum (map habit_emissions (filter (\<lambda>k. category k = category h) (xs @ h # ys))) = NaN"
    unfolding js_sum_def by (rule foldl_js_add_mem_NaN) (simp add: e)
  then have c: "by_category_get (category h) (emissionsByCategory (xs @ h # ys)) = Some NaN"
    using by_category_get_zero [OF assms(1), of "Fin 0"] by (simp add: category_total)
  then have t: "js_sum (Object_values (emissionsByCategory (xs @ h # ys))) = NaN"
    unfolding js_sum_def by (intro foldl_js_add_mem_NaN by_category_get_mem)
  have o: "by_category_get c (emissionsByCategory (xs @ h # ys)) =
           by_category_get c (emissionsByCategory (xs @ ys))" if "c \<noteq> category h" for c
    using that by (auto simp: category_total)
  show ?thesis
    using e c t o by (simp add: recompute_def Let_def json_aggregate_def)
qed

theorem unknown_type_poisons_totals_witness:
  "by_category_get (category tofu) EMISSION_FACTORS = Some (food EMISSION_FACTORS)
   \<and> type tofu \<notin> fst ` set (food EMISSION_FACTORS)
   \<and> habit_emissions tofu = NaN
   \<and> by_category_get (category tofu) (byCategory (recompute ''2024-05'' ([car, beef] @ tofu # []))) = Some NaN
   \<and> total (recompute ''2024-05'' ([car, beef] @ tofu # [])) = NaN
   \<and> total (json_aggregate (recompute ''2024-05'' ([car, beef] @ tofu # []))) = Null
   \<and> by_category_get ''transport'' (byCategory (recompute ''2024-05'' ([car, beef] @ tofu # []))) =
       by_category_get ''transport'' (byCategory (recompute ''2024-05'' ([car, beef] @ [])))"
proof -
  have "''transport'' \<noteq> category tofu"
    by (simp add: tofu_def)
  then show ?thesis
    using unknown_type_poisons_totals [OF tofu_unknown, of "''2024-05''" "[car, beef]" "[]"]
      tofu_unknown
    by blast
qed

text \<open>
  C3. The transport habit \<open>car\<close> (car_gasoline, distance 20, daily) has the monthly
  emissions \<open>72\<close>, the food habit \<open>beef\<close> (beef, quantity 1) has \<open>108\<close>, and the
  recompute of the two gives the grand total \<open>180\<close>, in binary64 arithmetic, which is
  also the total the ledger stores.
\<close>

theorem example_month_total:
  "habit_emissions car = Fin 72
   \<and> habit_emissions beef = Fin 108
   \<and> total (recompute m [car, beef]) = Fin 180
   \<and> total (json_aggregate (recompute m [car, beef])) = Num (Fin 180)"
  by (simp add: category_totals car_emissions beef_emissions recompute_def Object_values_def
      js_sum_def rnd_72 rnd_108 rnd_180 json_aggregate_def)
     (simp add: car_def beef_def)

section \<open>The monthly ledger\<close>

lemma findIndex_None: "findIndex P xs = None \<longleftrightarrow> (\<forall>x\<in>set xs. \<not> P x)"
  by (induction xs) auto

lemma findIndex_less: "findIndex P xs = Some i \<Longrightarrow> i < length xs \<and> P (xs ! i)"
  by (induction xs arbitrary: i) (auto split: if_splits)

lemma findIndex_Some:
  "findIndex P xs = Some i \<Longrightarrow>
   \<exists>pre x post. xs = pre @ x # post \<and> length pre = i \<and> P x \<and> (\<forall>y\<in>set pre. \<not> P y)"
proof (induction xs arbitrary: i)
  case Nil
  then show ?case by simp
next
  case (Cons a xs)
  show ?case
  proof (cases "P a")
    case True
    with Cons.prems have "i = 0" by simp
    with True show ?thesis by (intro exI [of _ "[]"]) auto
  next
    case False
    with Cons.prems obtain j where j: "findIndex P xs = Some j" "i = Suc j"
      by auto
    from Cons.IH [OF j(1)] obtain pre x post where
      "xs = pre @ x # post" "length pre = j" "P x" "\<forall>y\<in>set pre. \<not> P y"
      by blast
    with False j(2) show ?thesis
      by (intro exI [of _ "a # pre"] exI [of _ x] exI [of _ post]) auto
  qed
qed

lemma findIndex_first:
  "P x \<Longrightarrow> \<forall>y\<in>set pre. \<not> P y \<Longrightarrow> findIndex P (pre @ x # post) = Some (length pre)"
  by (induction pre) auto

lemma ledger_upsert:
  "emissions (snd (calculateEmissions m data)) =
     (case findIndex (\<lambda>e. month e = Some m) (emissions data) of
        Some i \<Rightarrow> (emissions data)[i := json_aggregate (recompute m (habits data))]
      | None \<Rightarrow> emissions data @ [json_aggregate (recompute m (habits data))])"
  by (simp add: calculateEmissions_def Let_def split: option.split)

lemma month_entry [simp]: "month (json_aggregate (recompute m hs)) = Some m"
  by (simp add: json_aggregate_def recompute_def Let_def)

text \<open>
  After an upsert the ledger is the entry between what stood before and after its place;
  nothing before it is of its month, and the entries of other months are untouched.
\<close>

lemma same_month_shape:
  fixes l :: "jsval aggregate list"
  assumes "month e = Some m"
  shows "\<exists>pre post.
       (case findIndex (\<lambda>e. month e = Some m) l of Some i \<Rightarrow> l[i := e] | None \<Rightarrow> l @ [e]) =
         pre @ e # post
     \<and> (\<forall>y\<in>set pre. month y \<noteq> Some m)
     \<and> filter (\<lambda>e. month e = Some m) post = tl (filter (\<lambda>e. month e = Some m) l)
     \<and> filter (\<lambda>e. month e \<noteq> Some m) (pre @ post) = filter (\<lambda>e. month e \<noteq> Some m) l"
proof (cases "findIndex (\<lambda>e. month e = Some m) l")
  case None
  then have "\<forall>y\<in>set l. month y \<noteq> Some m"
    by (simp add: findIndex_None)
  with None show ?thesis
    by (intro exI [of _ l] exI [of _ "[]"]) (auto simp: filter_empty_conv)
next
  case (Some i)
  from findIndex_Some [OF Some] obtain pre x post where
    x: "l = pre @ x # post" "length pre = i" "month x = Some m" "\<forall>y\<in>set pre. month y \<noteq> Some m"
    by blast
  then have "filter (\<lambda>e. month e = Some m) pre = []"
    by (simp add: filter_empty_conv)
  with Some x show ?thesis
    by (intro exI [of _ pre] exI [of _ post]) (auto simp: list_update_append)
qed

text \<open>
  The ledger starts empty, and a recompute keeps at most one entry per month: every
  ledger that the program writes has the shape the data model gives it.
\<close>

lemma months_unique_init: "length (filter (\<lambda>e. month e = Some k) (emissions init)) \<le> 1"
  by (simp add: init_def)

lemma months_unique_preserved:
  assumes "\<And>k. length (filter (\<lambda>e. month e = Some k) (emissions data)) \<le> 1"
  shows "length (filter (\<lambda>e. month e = Some k)
                  (emissions (snd (calculateEmissions m data)))) \<le> 1"
proof -
  let ?e = "json_aggregate (recompute m (habits data))"
  obtain pre post where
    l: "emissions (snd (calculateEmissions m data)) = pre @ ?e # post"
    and pre: "\<forall>y\<in>set pre. month y \<noteq> Some m"
    and post: "filter (\<lambda>e. month e = Some m) post =
               tl (filter (\<lambda>e. month e = Some m) (emissions data))"
    and rest: "filter (\<lambda>e. month e \<noteq> Some m) (pre @ post) =
               filter (\<lambda>e. month e \<noteq> Some m) (emissions data)"
    using same_month_shape [of ?e m "emissions data"] unfolding ledger_upsert
    by (metis month_entry)
  show ?thesis
  proof (cases "k = m")
    case True
    have "filter (\<lambda>e. month e = Some m) pre = []"
      using pre by (simp add: filter_empty_conv)
    moreover have "filter (\<lambda>e. month e = Some m) post = []"
      using assms [of m] unfolding post
      by (cases "filter (\<lambda>e. month e = Some m) (emissions data)") simp_all
    ultimately show ?thesis
      using True by (simp add: l)
  next
    case False
    have sel: "filter (\<lambda>e. month e = Some k) xs =
        filter (\<lambda>e. month e = Some k) (filter (\<lambda>e. month e \<noteq> Some m) xs)"
      for xs :: "jsval aggregate list"
      using False by (induction xs) auto
    have "filter (\<lambda>e. month e = Some k) (pre @ ?e # post) =
        filter (\<lambda>e. month e = Some k) (filter (\<lambda>e. month e \<noteq> Some m) (pre @ post))"
      by (subst sel) simp
    also have "\<dots> = filter (\<lambda>e. month e = Some k) (emissions data)"
      unfolding rest by (rule sel [symmetric])
    finally show ?thesis
      using assms [of k] by (simp add: l)
  qed
qed

text \<open>
  C4. For every stored document, every month and every list of habits at the second
  run: a second recompute in the same month leaves the history as long as the first
  left it and leaves the entries of other months as they were; and when the ledger held
  at most one entry for the month, as the data model has it, the history then holds
  exactly one entry for that month, the aggregate of the second run and nothing of the
  first.
\<close>

theorem same_month_recompute_replaces:
  "length (getMonthlyHistory
            (snd (calculateEmissions m ((snd (calculateEmissions m data))\<lparr>habits := hs\<rparr>)))) =
   length (getMonthlyHistory (snd (calculateEmissions m data)))
   \<and> (length (filter (\<lambda>e. month e = Some m) (getMonthlyHistory data)) \<le> 1 \<longrightarrow>
        filter (\<lambda>e. month e = Some m)
          (getMonthlyHistory
            (snd (calculateEmissions m ((snd (calculateEmissions m data))\<lparr>habits := hs\<rparr>)))) =
        [json_aggregate (recompute m hs)])
   \<and> filter (\<lambda>e. month e \<noteq> Some m)
        (getMonthlyHistory
          (snd (calculateEmissions m ((snd (calculateEmissions m data))\<lparr>habits := hs\<rparr>)))) =
      filter (\<lambda>e. month e \<noteq> Some m) (getMonthlyHistory data)"
proof -
  let ?P = "\<lambda>e::jsval aggregate. month e = Some m"
  let ?e1 = "json_aggregate (recompute m (habits data))"
  let ?e2 = "json_aggregate (recompute m hs)"
  let ?d1 = "snd (calculateEmissions m data)"
  let ?d2 = "snd (calculateEmissions m (?d1\<lparr>habits := hs\<rparr>))"
  obtain pre post where
    l1: "emissions ?d1 = pre @ ?e1 # post"
    and pre: "\<forall>y\<in>set pre. month y \<noteq> Some m"
    and post: "filter ?P post = tl (filter ?P (emissions data))"
    and rest: "filter (\<lambda>e. month e \<noteq> Some m) (pre @ post) =
               filter (\<lambda>e. month e \<noteq> Some m) (emissions data)"
    using same_month_shape [of ?e1 m "emissions data"] unfolding ledger_upsert
    by (metis month_entry)
  have l1': "emissions (?d1\<lparr>habits := hs\<rparr>) = pre @ ?e1 # post"
    by (simp add: l1)
  have "findIndex ?P (pre @ ?e1 # post) = Some (length pre)"
    using pre by (intro findIndex_first) simp_all
  then have l2: "emissions ?d2 = pre @ ?e2 # post"
    unfolding ledger_upsert [of m "?d1\<lparr>habits := hs\<rparr>"] l1' by simp
  have none: "filter ?P pre = []"
    using pre by (simp add: filter_empty_conv)
  have "filter ?P post = []" if "length (filter ?P (emissions data)) \<le> 1"
    using that unfolding post by (cases "filter ?P (emissions data)") simp_all
  then show ?thesis
    using rest by (simp add: getMonthlyHistory_def l1 l2 none)
qed

lemma april_ledger: "emissions april = [json_aggregate (recompute ''2024-04'' [car])]"
  by (simp add: april_def ledger_upsert init_def)

theorem same_month_recompute_replaces_witness:
  "length (filter (\<lambda>e. month e = Some ''2024-05'') (getMonthlyHistory april)) \<le> 1
   \<and> length (getMonthlyHistory
        (snd (calculateEmissions ''2024-05''
               ((snd (calculateEmissions ''2024-05'' april))\<lparr>habits := [car, beef]\<rparr>)))) =
      length (getMonthlyHistory (snd (calculateEmissions ''2024-05'' april)))
   \<and> filter (\<lambda>e. month e = Some ''2024-05'')
        (getMonthlyHistory
          (snd (calculateEmissions ''2024-05''
                 ((snd (calculateEmissions ''2024-05'' april))\<lparr>habits := [car, beef]\<rparr>)))) =
      [json_aggregate (recompute ''2024-05'' [car, beef])]
   \<and> length (getMonthlyHistory (snd (calculateEmissions ''2024-05'' april))) = 2"
proof -
  have h: "length (filter (\<lambda>e. month e = Some ''2024-05'') (getMonthlyHistory april)) \<le> 1"
    by (simp add: getMonthlyHistory_def april_ledger)
  have n: "length (getMonthlyHistory (snd (calculateEmissions ''2024-05'' april))) = 2"
    by (simp add: getMonthlyHistory_def ledger_upsert april_ledger)
  show ?thesis
    using same_month_recompute_replaces [where m = "''2024-05''" and data = april and hs = "[car, beef]"] h n
    by blast
qed

section \<open>Scenario projection\<close>

lemma default_current:
  "getCurrentEmissions m init =
     \<lparr>month = None, total = Num (Fin 0),
      byCategory = \<lparr>transport = Undefined, energy = Undefined, food = Undefined,
                     shopping = Undefined, waste = Undefined\<rparr>\<rparr>"
  by (simp add: getCurrentEmissions_def init_def)

text \<open>
  C5. The code at a baseline of total \<open>0\<close>, the default aggregate of an empty ledger.
  The live preview shows the number \<open>0\<close> as the reduction in percent. The click handler
  that saves a scenario has no such guard: with all sliders at \<open>0\<close> it stores the
  string of NaN, and with one meat-free day the string of \<open>Infinity\<close>.
\<close>

theorem saved_percent_at_zero_baseline:
  "map_option reductionPercent
     (createScenario ''plan'' no_sliders (getCurrentEmissions ''2024-05'' init)) =
     Some (ToString NaN)
   \<and> map_option reductionPercent
       (createScenario ''plan'' one_meat_free_day (getCurrentEmissions ''2024-05'' init)) =
       Some (ToString PInf)
   \<and> shown_reductionPercent (updateScenarioResults no_sliders (getCurrentEmissions ''2024-05'' init)) =
       Number (Fin 0)
   \<and> shown_reductionPercent
       (updateScenarioResults one_meat_free_day (getCurrentEmissions ''2024-05'' init)) =
       Number (Fin 0)"
  by (simp add: default_current createScenario_def updateScenarioResults_def no_sliders_def
      one_meat_free_day_def parseInt_def js_or_def js_sub_def lit_values rnd_values
      inf_of_sign_def Let_def)

text \<open>The guard of the preview, for every baseline that reads as \<open>0\<close>.\<close>

lemma preview_percent_guarded:
  "baseline (total ce) = Fin 0 \<Longrightarrow>
   shown_reductionPercent (updateScenarioResults sl ce) = Number (Fin 0)"
  by (simp add: updateScenarioResults_def baseline_def Let_def)

text \<open>Both paths compute the projection formula; the preview then clamps it.\<close>

lemma saved_projected:
  "createScenario nm sl ce = Some s \<Longrightarrow> projectedEmissions s = spec_projected sl ce"
  by (auto simp: createScenario_def spec_projected_def baseline_def Let_def split: if_splits)

lemma shown_projected:
  "shown_projectedEmissions (updateScenarioResults sl ce) = Math_max (Fin 0) (spec_projected sl ce)"
  by (simp add: updateScenarioResults_def spec_projected_def baseline_def Let_def)




lemma baseline_stored: "stored v \<Longrightarrow> \<exists>a. baseline v = Fin a \<and> is_double a"
  by (cases v rule: stored.cases) (auto simp: baseline_def js_or_def is_double_def)

lemma projected_no_sliders:
  assumes "stored (total b)" and "stored (transport (byCategory b))"
    and "stored (energy (byCategory b))" and "stored (waste (byCategory b))"
  shows "spec_projected no_sliders b = baseline (total b)"
proof -
  obtain T where T: "baseline (total b) = Fin T" "is_double T"
    using baseline_stored [OF assms(1)] by blast
  obtain t where t: "baseline (transport (byCategory b)) = Fin t" "is_double t"
    using baseline_stored [OF assms(2)] by blast
  obtain e where e: "baseline (energy (byCategory b)) = Fin e" "is_double e"
    using baseline_stored [OF assms(3)] by blast
  obtain w where w: "baseline (waste (byCategory b)) = Fin w" "is_double w"
    using baseline_stored [OF assms(4)] by blast
  have z: "js_div (parseInt 0) (Fin 100) = Fin 0"
    by (simp add: parseInt_def)
  have c1: "js_mul (js_mul (Fin t) (lit (1 / 2))) (Fin 0) = Fin 0"
    using mul_mul_zero [OF t(2), of "1 / 2"] by (simp add: lit_values)
  have c2: "js_mul (js_mul (parseInt 0) (lit (1 / 2))) (Fin 4) = Fin 0"
    by (simp add: parseInt_def lit_values)
  have c3: "js_mul (Fin e) (Fin 0) = Fin 0"
    by simp
  have c4: "js_mul (js_mul (Fin w) (lit (4 / 5))) (Fin 0) = Fin 0"
    using mul_mul_zero [OF w(2), of "3602879701896397 / 4503599627370496"]
    by (simp add: lit_values)
  have s: "js_sub (Fin T) (Fin 0) = Fin T"
    using T(2) by (simp add: js_sub_def is_double_def)
  show ?thesis
    by (simp add: spec_projected_def no_sliders_def Let_def T t e w z c1 c2 c3 c4 s)
qed

lemma returned_beef_emissions: "habit_emissions returned_beef = Fin (- 108)"
  by (simp add: habit_emissions_def returned_beef_def factor_def get_prop_def EMISSION_FACTORS_def
      lit_values rnd_values)

lemma negative_month_eq:
  "negative_month =
     \<lparr>month = Some ''2024-05'', total = Num (Fin (- 108)),
      byCategory = \<lparr>transport = Num (Fin 0), energy = Num (Fin 0), food = Num (Fin (- 108)),
                     shopping = Num (Fin 0), waste = Num (Fin 0)\<rparr>\<rparr>"
  by (simp add: negative_month_def recompute_def json_aggregate_def json_by_category_def Let_def
      category_totals Object_values_def js_sum_def returned_beef_emissions rnd_values)
     (simp add: returned_beef_def)

lemma may_month_eq:
  "may_month =
     \<lparr>month = Some ''2024-05'', total = Num (Fin 180),
      byCategory = \<lparr>transport = Num (Fin 72), energy = Num (Fin 0), food = Num (Fin 108),
                     shopping = Num (Fin 0), waste = Num (Fin 0)\<rparr>\<rparr>"
  by (simp add: may_month_def recompute_def json_aggregate_def json_by_category_def Let_def
      category_totals Object_values_def js_sum_def car_emissions beef_emissions rnd_72 rnd_108 rnd_180)
     (simp add: car_def beef_def)

text \<open>
  C8, as the claim states it, fails in the live preview: the aggregate that the recompute
  stores for a food habit of quantity \<open>-1\<close> has the total \<open>-108\<close>, and with all four
  sliders at \<open>0\<close> the preview shows the projected total \<open>0\<close>.
\<close>

theorem zero_parameters_negative_baseline_counterexample:
  "total negative_month = Num (Fin (- 108))
   \<and> shown_projectedEmissions (updateScenarioResults no_sliders negative_month) = Fin 0"
proof -
  have "spec_projected no_sliders negative_month = baseline (total negative_month)"
    by (rule projected_no_sliders) (simp_all add: negative_month_eq is_double_values)
  then show ?thesis
    by (simp add: shown_projected) (simp add: negative_month_eq baseline_def js_or_def)
qed

text \<open>
  C8, amended. For every baseline aggregate as the ledger stores it (each figure a
  finite number, \<open>null\<close> or missing, the last two read as \<open>0\<close>), with all four sliders
  at \<open>0\<close>: the projected total of a saved scenario is exactly the baseline total, and
  the projected total of the live preview is the larger of \<open>0\<close> and the baseline total,
  so exactly the baseline total when that is not negative.
\<close>

theorem zero_parameters_keep_baseline:
  assumes "stored (total b)" and "stored (transport (byCategory b))"
    and "stored (energy (byCategory b))" and "stored (waste (byCategory b))"
    and "createScenario nm no_sliders b = Some s"
  shows "projectedEmissions s = baseline (total b)
     \<and> shown_projectedEmissions (updateScenarioResults no_sliders b) =
         Math_max (Fin 0) (baseline (total b))
     \<and> (\<forall>t. total b = Num (Fin t) \<longrightarrow>
           projectedEmissions s = Fin t
           \<and> shown_projectedEmissions (updateScenarioResults no_sliders b) = Fin (max 0 t))"
proof -
  have p: "spec_projected no_sliders b = baseline (total b)"
    using assms(1-4) by (rule projected_no_sliders)
  have "baseline (Num (Fin t)) = Fin t" for t
    by (simp add: baseline_def js_or_def)
  then show ?thesis
    using saved_projected [OF assms(5)] by (auto simp: shown_projected p)
qed

theorem zero_parameters_keep_baseline_witness:
  "stored (total may_month) \<and> stored (transport (byCategory may_month))
   \<and> stored (energy (byCategory may_month)) \<and> stored (waste (byCategory may_month))
   \<and> createScenario ''plan'' no_sliders may_month =
       Some (the (createScenario ''plan'' no_sliders may_month))
   \<and> total may_month = Num (Fin 180)
   \<and> projectedEmissions (the (createScenario ''plan'' no_sliders may_month)) = Fin 180
   \<and> shown_projectedEmissions (updateScenarioResults no_sliders may_month) = Fin 180"
proof -
  have st: "stored (total may_month)" "stored (transport (byCategory may_month))"
    "stored (energy (byCategory may_month))" "stored (waste (byCategory may_month))"
    by (simp_all add: may_month_eq is_double_values)
  have c: "createScenario ''plan'' no_sliders may_month =
      Some (the (createScenario ''plan'' no_sliders may_month))"
    by (simp add: createScenario_def Let_def)
  have t: "total may_month = Num (Fin 180)"
    by (simp add: may_month_eq)
  show ?thesis
    using zero_parameters_keep_baseline [OF st c] st c t by (simp add: baseline_def js_or_def)
qed

section \<open>Frequency lookup\<close>

lemma car_factor:
  "factor (transport EMISSION_FACTORS) (car\<lparr>frequency := f\<rparr>) =
     Fin (1080863910568919 / 9007199254740992)"
  by (simp add: factor_def get_prop_def EMISSION_FACTORS_def car_def lit_values)

text \<open>
  What the lookup does where it finds nothing: for a transport habit whose frequency,
  read as a property key (\<open>"undefined"\<close> when the field is missing), is neither a key of
  the frequency table nor the name of a member inherited from \<open>Object.prototype\<close>, the
  fallback \<open>|| 1\<close> applies and the emissions are distance times \<open>1\<close> times the factor.
\<close>

lemma unknown_frequency_multiplier_one:
  assumes "category h = ''transport''"
    and "property_key (frequency h) \<notin> fst ` set FREQUENCY_FACTORS"
    and "property_key (frequency h) \<notin> set Object_prototype"
  shows "habit_emissions h =
           js_mul (js_mul (ToNumber (distance h)) (Fin 1)) (factor (transport EMISSION_FACTORS) h)
     \<and> (\<forall>d. distance h = Num (Fin d) \<and> is_double d \<longrightarrow>
           habit_emissions h = js_mul (Fin d) (factor (transport EMISSION_FACTORS) h))"
proof -
  have "map_of FREQUENCY_FACTORS (property_key (frequency h)) = None"
    using assms(2) by (simp add: map_of_eq_None_iff)
  then have "get_prop FREQUENCY_FACTORS (property_key (frequency h)) = Undefined"
    using assms(3) by (simp add: get_prop_def)
  then have "habit_emissions h =
      js_mul (js_mul (ToNumber (distance h)) (Fin 1)) (factor (transport EMISSION_FACTORS) h)"
    using assms(1) by (simp add: habit_emissions_def js_or_def)
  then show ?thesis
    by (auto simp: is_double_def)
qed

lemma missing_frequency_multiplier_one:
  "category car_no_frequency = ''transport''
   \<and> property_key (frequency car_no_frequency) \<notin> fst ` set FREQUENCY_FACTORS
   \<and> property_key (frequency car_no_frequency) \<notin> set Object_prototype
   \<and> habit_emissions car_no_frequency = Fin (5404319552844595 / 2251799813685248)"
proof -
  have h: "category car_no_frequency = ''transport''"
    "property_key (frequency car_no_frequency) \<notin> fst ` set FREQUENCY_FACTORS"
    "property_key (frequency car_no_frequency) \<notin> set Object_prototype"
    by (simp_all add: car_no_frequency_def car_def FREQUENCY_FACTORS_def Object_prototype_def)
  have d: "distance car_no_frequency = Num (Fin 20)"
    by (simp add: car_no_frequency_def car_def)
  from unknown_frequency_multiplier_one [OF h] d is_double_values(2)
  have "habit_emissions car_no_frequency =
      js_mul (Fin 20) (factor (transport EMISSION_FACTORS) car_no_frequency)"
    by blast
  then show ?thesis
    using h by (simp add: car_no_frequency_def car_factor rnd_values)
qed

text \<open>
  C10. The code on the transport habit \<open>car_toString\<close>, whose frequency \<open>toString\<close> is
  not a key of the frequency table. The lookup finds the function that every object
  inherits under that name; it is truthy, so the fallback \<open>|| 1\<close> does not apply, and the
  emissions of the habit are NaN, where distance times \<open>1\<close> times the factor is a number
  (\<open>20 * 1 * 0.12\<close>).
\<close>

theorem inherited_frequency_key_yields_NaN:
  "category car_toString = ''transport''
   \<and> property_key (frequency car_toString) \<notin> fst ` set FREQUENCY_FACTORS
   \<and> habit_emissions car_toString = NaN
   \<and> js_mul (js_mul (ToNumber (distance car_toString)) (Fin 1))
         (factor (transport EMISSION_FACTORS) car_toString) =
       Fin (5404319552844595 / 2251799813685248)"
  by (simp add: car_toString_def car_factor habit_emissions_def)
     (simp add: car_def FREQUENCY_FACTORS_def get_prop_def Object_prototype_def js_or_def
       rnd_values)

section \<open>Weekly plans\<close>

lemma week1_eq:
  "week1 =
     \<lparr>habits = [], emissions = [],
      weeklyPlans = [\<lparr>plan_id = 1000, goals = four_goals, progress = Fin 0, plan_completed = False\<rparr>],
      currentPlan = Some 1000\<rparr>"
  by (simp add: week1_def addWeeklyPlan_def init_def four_goals_def Let_def)

lemma two_done_eq:
  "two_done =
     \<lparr>habits = [], emissions = [],
      weeklyPlans =
        [\<lparr>plan_id = 1000,
          goals =
            [\<lparr>goal_value = ''transport_public'', completed = True\<rparr>,
             \<lparr>goal_value = ''food_vegetarian'', completed = True\<rparr>,
             \<lparr>goal_value = ''energy_saving'', completed = False\<rparr>,
             \<lparr>goal_value = ''waste_recycling'', completed = False\<rparr>],
          progress = Fin 50, plan_completed = False\<rparr>],
      currentPlan = Some 1000\<rparr>"
  by (simp add: two_done_def week1_eq updatePlanProgress_def four_goals_def rnd_values Let_def)

lemma four_done_eq:
  "four_done =
     \<lparr>habits = [], emissions = [],
      weeklyPlans =
        [\<lparr>plan_id = 1000,
          goals =
            [\<lparr>goal_value = ''transport_public'', completed = True\<rparr>,
             \<lparr>goal_value = ''food_vegetarian'', completed = True\<rparr>,
             \<lparr>goal_value = ''energy_saving'', completed = True\<rparr>,
             \<lparr>goal_value = ''waste_recycling'', completed = True\<rparr>],
          progress = Fin 100, plan_completed = True\<rparr>],
      currentPlan = Some 1000\<rparr>"
  by (simp add: four_done_def two_done_eq updatePlanProgress_def rnd_values Let_def)

lemma one_undone_eq:
  "one_undone =
     \<lparr>habits = [], emissions = [],
      weeklyPlans =
        [\<lparr>plan_id = 1000,
          goals =
            [\<lparr>goal_value = ''transport_public'', completed = True\<rparr>,
             \<lparr>goal_value = ''food_vegetarian'', completed = True\<rparr>,
             \<lparr>goal_value = ''energy_saving'', completed = True\<rparr>,
             \<lparr>goal_value = ''waste_recycling'', completed = False\<rparr>],
          progress = Fin 75, plan_completed = True\<rparr>],
      currentPlan = Some 1000\<rparr>"
  by (simp add: one_undone_def four_done_eq updatePlanProgress_def rnd_values Let_def)

text \<open>
  C6. The code on a plan of four goals. With two goals ticked the progress is \<open>50\<close> and
  the plan is not completed; with all four ticked it is completed. When the fourth goal is
  then unticked, the progress falls to \<open>75\<close> and one goal is open, but the plan still
  counts as completed: the flag is set when all goals are completed and never cleared.
\<close>

theorem completed_flag_never_reset:
  "map_option progress (getCurrentPlan two_done) = Some (Fin 50)
   \<and> map_option plan_completed (getCurrentPlan two_done) = Some False
   \<and> map_option plan_completed (getCurrentPlan four_done) = Some True
   \<and> map_option (map completed \<circ> goals) (getCurrentPlan one_undone) = Some [True, True, True, False]
   \<and> map_option progress (getCurrentPlan one_undone) = Some (Fin 75)
   \<and> map_option plan_completed (getCurrentPlan one_undone) = Some True"
  by (simp add: two_done_eq four_done_eq one_undone_eq getCurrentPlan_def)

text \<open>What a toggle does in general: nothing for an unknown plan or an index out of range.\<close>

lemma updatePlanProgress_unknown_plan:
  assumes "planId \<notin> plan_id ` set (weeklyPlans data)"
  shows "updatePlanProgress planId i c data = data"
proof -
  have "findIndex (\<lambda>p. plan_id p = planId) (weeklyPlans data) = None"
    using assms by (auto simp: findIndex_None)
  then show ?thesis by (simp add: updatePlanProgress_def)
qed

lemma updatePlanProgress_out_of_range:
  assumes "findIndex (\<lambda>p. plan_id p = planId) (weeklyPlans data) = Some k"
    and "i < 0 \<or> int (length (goals (weeklyPlans data ! k))) \<le> i"
  shows "updatePlanProgress planId i c data = data"
  using assms by (auto simp: updatePlanProgress_def Let_def)

text \<open>
  For an index in range the goal takes the given flag, the progress is recomputed, and
  the plan is completed afterwards when it was before or when all its goals are now.
\<close>

lemma updatePlanProgress_in_range:
  fixes planId i :: int and c :: bool and data :: store
  assumes "findIndex (\<lambda>p. plan_id p = planId) (weeklyPlans data) = Some k"
    and "0 \<le> i" and "i < int (length (goals (weeklyPlans data ! k)))"
  defines "p \<equiv> weeklyPlans data ! k"
  defines "p' \<equiv> weeklyPlans (updatePlanProgress planId i c data) ! k"
  shows "goals p' = (goals p)[nat i := (goals p ! nat i)\<lparr>completed := c\<rparr>]"
    and "progress p' =
           Math_round (js_mul (js_div (Fin (of_nat (length (filter completed (goals p')))))
                                      (Fin (of_nat (length (goals p'))))) (Fin 100))"
    and "plan_completed p' \<longleftrightarrow> plan_completed p \<or> (\<forall>g\<in>set (goals p'). completed g)"
    and "plan_id p' = plan_id p"
proof -
  have k: "k < length (weeklyPlans data)"
    using findIndex_less [OF assms(1)] by simp
  have all: "length (filter completed gs) = length gs \<longleftrightarrow> (\<forall>g\<in>set gs. completed g)"
    for gs :: "goal list"
    by (metis filter_id_conv length_filter_less less_irrefl_nat filter_True)
  show "goals p' = (goals p)[nat i := (goals p ! nat i)\<lparr>completed := c\<rparr>]"
    using assms(1-3) k by (simp add: updatePlanProgress_def Let_def p_def p'_def)
  show "progress p' =
          Math_round (js_mul (js_div (Fin (of_nat (length (filter completed (goals p')))))
                                     (Fin (of_nat (length (goals p'))))) (Fin 100))"
    using assms(1-3) k by (simp add: updatePlanProgress_def Let_def p_def p'_def)
  show "plan_completed p' \<longleftrightarrow> plan_completed p \<or> (\<forall>g\<in>set (goals p'). completed g)"
    using assms(1-3) k by (auto simp: updatePlanProgress_def Let_def p_def p'_def all)
  show "plan_id p' = plan_id p"
    using assms(1-3) k by (simp add: updatePlanProgress_def Let_def p_def p'_def)
qed

lemma three_weeks_ids:
  "map plan_id (weeklyPlans three_weeks) = [1000, 2000, 3000]"
  "currentPlan three_weeks = Some 3000"
  by (simp_all add: three_weeks_def week1_eq addWeeklyPlan_def Let_def)

text \<open>
  C9, as the claim states it, fails on the order: after three plans created at the times
  \<open>1000\<close>, \<open>2000\<close> and \<open>3000\<close>, the previous plans come back oldest first, not most
  recent first.
\<close>

theorem previous_plans_oldest_first_counterexample:
  "map plan_id (getPreviousPlans three_weeks) = [1000, 2000]
   \<and> map plan_id (getPreviousPlans three_weeks) \<noteq> [2000, 1000]"
  by (simp add: getPreviousPlans_def three_weeks_def week1_eq addWeeklyPlan_def Let_def)

text \<open>
  C9, amended. For every stored collection of weekly plans, \<open>getPreviousPlans\<close> returns
  exactly the plans whose id differs from the current plan id, in the order in which they
  are stored; where the plans are stored in the order of their creation times, as
  \<open>addWeeklyPlan\<close> appends them, that is oldest first.
\<close>

theorem previous_plans_in_stored_order:
  "set (getPreviousPlans data) =
     {p \<in> set (weeklyPlans data). Some (plan_id p) \<noteq> currentPlan data}
   \<and> subseq (getPreviousPlans data) (weeklyPlans data)
   \<and> (sorted (map plan_id (weeklyPlans data)) \<longrightarrow> sorted (map plan_id (getPreviousPlans data)))"
  by (auto simp: getPreviousPlans_def sorted_filter)

theorem previous_plans_in_stored_order_witness:
  "sorted (map plan_id (weeklyPlans three_weeks))
   \<and> sorted (map plan_id (getPreviousPlans three_weeks))
   \<and> map plan_id (getPreviousPlans three_weeks) = [1000, 2000]"
proof -
  have s: "sorted (map plan_id (weeklyPlans three_weeks))"
    by (simp add: three_weeks_ids)
  moreover have "map plan_id (getPreviousPlans three_weeks) = [1000, 2000]"
    by (simp add: getPreviousPlans_def three_weeks_def week1_eq addWeeklyPlan_def Let_def)
  ultimately show ?thesis
    using previous_plans_in_stored_order [of three_weeks] by blast
qed

text \<open>The page that lists the previous plans sorts them itself, most recent first.\<close>

lemma loadPreviousPlans_most_recent_first:
  "sorted_wrt (\<lambda>a b. plan_id a \<ge> plan_id b) (loadPreviousPlans data)"
proof -
  have "sorted (map (\<lambda>p. - plan_id p) (sort_key (\<lambda>p. - plan_id p) (getPreviousPlans data)))"
    by (rule sorted_sort_key)
  then have "sorted_wrt (\<lambda>a b. plan_id a \<ge> plan_id b)
      (sort_key (\<lambda>p. - plan_id p) (getPreviousPlans data))"
    by (simp add: sorted_map sorted_wrt_iff_nth_less)
  then show ?thesis
    unfolding loadPreviousPlans_def by (rule sorted_wrt_take)
qed

section \<open>The numbers of the ledger\<close>

text \<open>
  The rounding function is idempotent: what it returns is a binary64 value. So every
  figure of an aggregate that the recompute writes to the ledger is \<open>stored\<close>: a finite
  binary64 value, or \<open>null\<close>.
\<close>

lemma bitlen_bounds: "0 < n \<Longrightarrow> 2 ^ (bitlen n - 1) \<le> n \<and> n < 2 ^ bitlen n"
proof (induction n rule: bitlen.induct)
  case (1 n)
  show ?case
  proof (cases "n div 2 = 0")
    case True
    with 1(2) have "n = 1" by (simp add: div_eq_0_iff) 
    then show ?thesis by (simp add: bitlen.simps)
  next
    case False
    then have h: "2 ^ (bitlen (n div 2) - 1) \<le> n div 2" "n div 2 < 2 ^ bitlen (n div 2)"
      using 1 by auto
    have p: "0 < bitlen (n div 2)"
      using False by (subst bitlen.simps) simp
    have b: "bitlen n = Suc (bitlen (n div 2))"
      using 1(2) by (subst bitlen.simps) simp
    have "(2::nat) ^ bitlen (n div 2) = 2 * 2 ^ (bitlen (n div 2) - 1)"
      using p by (cases "bitlen (n div 2)") simp_all
    then have "2 ^ (bitlen n - 1) \<le> 2 * (n div 2)"
      using h(1) by (simp add: b)
    moreover have "n < 2 * 2 ^ bitlen (n div 2)" using h(2) by linarith
    ultimately show ?thesis by (simp add: b)
  qed
qed

lemma pow2_pos [simp]: "0 < pow2 e"
  by (simp add: pow2_def)

lemma pow2_nonzero [simp]: "pow2 e \<noteq> 0"
  by (simp add: pow2_def)

lemma pow2_abs [simp]: "\<bar>pow2 e\<bar> = pow2 e"
  by (rule abs_of_pos) simp

lemma pow2_nonneg [simp]: "0 \<le> pow2 e"
  by (simp add: pow2_def)

lemma pow2_powi: "pow2 e = 2 powi e"
  by (simp add: pow2_def power_int_def power_one_over)

lemma pow2_add: "pow2 (a + b) = pow2 a * pow2 b"
  by (simp add: pow2_powi power_int_add)

lemma pow2_mono: "a \<le> b \<Longrightarrow> pow2 a \<le> pow2 b"
  by (simp add: pow2_powi power_int_increasing)

lemma pow2_nat: "pow2 (int n) = 2 ^ n"
  by (simp add: pow2_def)

lemma real_pow_le_nat: "2 ^ k \<le> (n::nat) \<Longrightarrow> (2::real) ^ k \<le> real n"
proof -
  assume "2 ^ k \<le> n"
  then have "real (2 ^ k) \<le> real n" by (simp only: of_nat_le_iff)
  then show ?thesis by simp
qed

lemma real_nat_less_pow: "(n::nat) < 2 ^ k \<Longrightarrow> real n + 1 \<le> (2::real) ^ k"
proof -
  assume "n < 2 ^ k"
  then have "Suc n \<le> 2 ^ k" by simp
  then have "real (Suc n) \<le> real (2 ^ k)" by (simp only: of_nat_le_iff)
  then show ?thesis by simp
qed

lemma bitlen_pos: "0 < n \<Longrightarrow> 0 < bitlen n"
  by (subst bitlen.simps) simp

lemma ilog2_ge1:
  assumes "1 \<le> \<bar>q\<bar>"
  shows "pow2 (ilog2 q) \<le> \<bar>q\<bar> \<and> \<bar>q\<bar> < pow2 (ilog2 q + 1)"
proof -
  define n where "n = nat \<lfloor>\<bar>q\<bar>\<rfloor>"
  have f: "1 \<le> \<lfloor>\<bar>q\<bar>\<rfloor>" using assms by linarith
  have n0: "0 < n" using f by (simp add: n_def)
  have rn: "real n = of_int \<lfloor>\<bar>q\<bar>\<rfloor>" using f by (simp add: n_def)
  have n1: "real n \<le> \<bar>q\<bar>" unfolding rn by linarith
  have n2: "\<bar>q\<bar> < real n + 1" unfolding rn by linarith
  from bitlen_bounds [OF n0] have b: "2 ^ (bitlen n - 1) \<le> n" "n < 2 ^ bitlen n"
    by auto
  obtain k where k: "bitlen n = Suc k"
    using bitlen_pos [OF n0] by (cases "bitlen n") auto
  have i: "ilog2 q = int k"
    using assms by (simp add: ilog2_def n_def [symmetric] k)
  have p1: "pow2 (ilog2 q) = 2 ^ k"
    by (simp add: i pow2_def)
  have p2: "pow2 (ilog2 q + 1) = 2 ^ Suc k"
    unfolding i pow2_def by (simp add: nat_add_distrib)
  have "(2::real) ^ k \<le> real n"
    using b(1) by (intro real_pow_le_nat) (simp add: k)
  moreover have "real n + 1 \<le> (2::real) ^ Suc k"
    using b(2) unfolding k by (rule real_nat_less_pow)
  ultimately show ?thesis
    unfolding p1 p2 using n1 n2 by linarith
qed

lemma ilog2_lt1:
  assumes "q \<noteq> 0" and "\<not> 1 \<le> \<bar>q\<bar>"
  shows "pow2 (ilog2 q) \<le> \<bar>q\<bar> \<and> \<bar>q\<bar> < pow2 (ilog2 q + 1)"
proof -
  define x where "x = 1 / \<bar>q\<bar>"
  have x: "1 < x" using assms by (simp add: x_def)
  define n where "n = nat (\<lceil>x\<rceil> - 1)"
  have c: "2 \<le> \<lceil>x\<rceil>" using x by linarith
  have n0: "0 < n" using c by (simp add: n_def)
  have rn: "real n = of_int \<lceil>x\<rceil> - 1" using c by (simp add: n_def)
  have n1: "real n < x" unfolding rn by linarith
  have n2: "x \<le> real n + 1" unfolding rn by linarith
  from bitlen_bounds [OF n0] have b: "2 ^ (bitlen n - 1) \<le> n" "n < 2 ^ bitlen n"
    by auto
  obtain k where k: "bitlen n = Suc k"
    using bitlen_pos [OF n0] by (cases "bitlen n") auto
  have i: "ilog2 q = - int (Suc k)"
    using assms(2) by (simp add: ilog2_def x_def [symmetric] n_def [symmetric] k)
  have p1: "pow2 (ilog2 q) = 1 / 2 ^ Suc k"
    unfolding i pow2_def by (simp add: nat_add_distrib)
  have p2: "pow2 (ilog2 q + 1) = 1 / 2 ^ k"
    unfolding i pow2_def by simp
  have l: "(2::real) ^ k < x"
  proof -
    have "(2::real) ^ k \<le> real n"
      using b(1) by (intro real_pow_le_nat) (simp add: k)
    then show ?thesis using n1 by linarith
  qed
  have u: "x \<le> (2::real) ^ Suc k"
  proof -
    have "real n + 1 \<le> (2::real) ^ Suc k"
      using b(2) unfolding k by (rule real_nat_less_pow)
    then show ?thesis using n2 by linarith
  qed
  have q: "\<bar>q\<bar> = 1 / x" "0 < x"
    using assms(1) x by (simp_all add: x_def)
  have "1 / 2 ^ Suc k \<le> 1 / x"
    using u q(2) by (intro divide_left_mono) simp_all
  moreover have "1 / x < 1 / 2 ^ k"
    using l q(2) by (intro divide_strict_left_mono) simp_all
  ultimately show ?thesis
    unfolding p1 p2 q(1) by simp
qed

lemma ilog2_bounds:
  "q \<noteq> 0 \<Longrightarrow> pow2 (ilog2 q) \<le> \<bar>q\<bar> \<and> \<bar>q\<bar> < pow2 (ilog2 q + 1)"
  using ilog2_ge1 ilog2_lt1 by blast


lemma pow2_less: "a < b \<Longrightarrow> pow2 a < pow2 b"
  by (simp add: pow2_powi power_int_strict_increasing)

lemma pow2_less_iff: "pow2 a < pow2 b \<longleftrightarrow> a < b"
  by (metis pow2_less pow2_mono not_less order_less_irrefl less_le_trans
      linorder_neqE_linordered_idom)

lemma ilog2_less: "v \<noteq> 0 \<Longrightarrow> \<bar>v\<bar> < pow2 k \<Longrightarrow> ilog2 v < k"
  using ilog2_bounds [of v] by (metis pow2_less_iff le_less_trans)

lemma round_half_even_close: "\<bar>of_int (round_half_even s) - s\<bar> \<le> 1 / 2"
  unfolding round_half_even_def Let_def by (auto split: if_splits)

lemma round_half_even_int [simp]: "round_half_even (of_int z) = z"
  by (simp add: round_half_even_def)

lemma grid_fixed:
  assumes "v = of_int z * pow2 f" and "ulp_exp v \<le> f"
  shows "of_int (round_half_even (v / pow2 (ulp_exp v))) * pow2 (ulp_exp v) = v"
proof -
  define e where "e = ulp_exp v"
  define d where "d = nat (f - e)"
  have f: "f = e + int d"
    using assms(2) by (simp add: d_def e_def)
  have pf: "pow2 f = pow2 e * 2 ^ d"
    by (subst f) (simp add: pow2_add pow2_nat)
  have pe: "pow2 e \<noteq> 0"
    by simp
  have "v / pow2 e = of_int (z * 2 ^ d)"
    using pe by (simp add: assms(1) pf)
  then have "of_int (round_half_even (v / pow2 e)) * pow2 e = of_int (z * 2 ^ d) * pow2 e"
    by (simp only: round_half_even_int)
  also have "\<dots> = v"
    by (simp add: assms(1) pf)
  finally show ?thesis
    unfolding e_def .
qed


lemma threshold_facts:
  "overflow_threshold < pow2 1024"
  "pow2 1023 < overflow_threshold"
  "overflow_threshold / pow2 971 = 2 ^ 53 - 1 / 2"
  "(2 ^ 53 - 1) * pow2 971 < overflow_threshold"
  by (simp_all add: overflow_threshold_def pow2_def)

lemma rnd_idem:
  assumes "rnd q = Fin v"
  shows "rnd v = Fin v"
proof (cases "q = 0")
  case True
  with assms show ?thesis by simp
next
  case False
  define e where "e = ulp_exp q"
  define s where "s = q / pow2 e"
  define m where "m = round_half_even s"
  have T: "\<bar>q\<bar> < overflow_threshold"
    using assms by (auto simp: rnd_def split: if_splits)
  have v: "v = of_int m * pow2 e"
    using assms by (auto simp: rnd_def m_def s_def e_def split: if_splits)
  have e: "e = max (ilog2 q) (- 1022) - 52"
    using False by (simp add: e_def ulp_exp_def)
  have L: "\<bar>q\<bar> < pow2 (ilog2 q + 1)"
    using ilog2_bounds [OF False] by simp
  have "ilog2 q < 1024"
    using False T threshold_facts(1) by (intro ilog2_less) simp_all
  then have e_hi: "e \<le> 971" and e_lo: "- 1074 \<le> e" and e_L: "ilog2 q + 1 \<le> e + 53"
    by (simp_all add: e)
  have "\<bar>q\<bar> < pow2 (e + 53)"
    using L pow2_mono [OF e_L] by simp
  then have sb: "\<bar>s\<bar> < 2 ^ 53"
    by (simp add: s_def pow2_add pow2_def [of 53] abs_divide field_simps)
  have close: "\<bar>of_int m - s\<bar> \<le> 1 / 2"
    unfolding m_def by (rule round_half_even_close)
  have mb: "\<bar>m\<bar> \<le> 2 ^ 53"
  proof -
    have "\<bar>real_of_int m\<bar> < 2 ^ 53 + 1"
      using close sb by linarith
    then have "real_of_int \<bar>m\<bar> < real_of_int (2 ^ 53 + 1)"
      by simp
    then have "\<bar>m\<bar> < 2 ^ 53 + 1"
      by (simp only: of_int_less_iff)
    then show ?thesis by simp
  qed
  have va: "\<bar>v\<bar> = of_int \<bar>m\<bar> * pow2 e"
    by (simp add: v abs_mult)
  have A: "\<bar>v\<bar> < overflow_threshold"
  proof (cases "e = 971")
    case True
    have "\<bar>q\<bar> / pow2 971 < overflow_threshold / pow2 971"
      using T by (intro divide_strict_right_mono) simp_all
    then have "\<bar>s\<bar> < 2 ^ 53 - 1 / 2"
      unfolding threshold_facts(3) by (simp only: s_def True abs_divide pow2_abs)
    then have "\<bar>real_of_int m\<bar> < 2 ^ 53"
      using close by linarith
    then have "real_of_int \<bar>m\<bar> < real_of_int (2 ^ 53)"
      by simp
    then have "\<bar>m\<bar> < 2 ^ 53"
      by (simp only: of_int_less_iff)
    then have "\<bar>m\<bar> \<le> 2 ^ 53 - 1"
      by simp
    then have "real_of_int \<bar>m\<bar> \<le> real_of_int (2 ^ 53 - 1)"
      by (simp only: of_int_le_iff)
    then have "\<bar>v\<bar> \<le> (2 ^ 53 - 1) * pow2 971"
      unfolding va True by (intro mult_right_mono) simp_all
    then show ?thesis
      using threshold_facts(4) by linarith
  next
    case False
    with e_hi have "e + 53 \<le> 1023" by simp
    then have "pow2 (e + 53) \<le> pow2 1023"
      by (rule pow2_mono)
    moreover have "\<bar>v\<bar> \<le> pow2 (e + 53)"
    proof -
      have "real_of_int \<bar>m\<bar> \<le> real_of_int (2 ^ 53)"
        using mb by (simp only: of_int_le_iff)
      then have "\<bar>v\<bar> \<le> 2 ^ 53 * pow2 e"
        unfolding va by (intro mult_right_mono) simp_all
      then show ?thesis
        by (simp add: pow2_add pow2_def [of 53] mult.commute)
    qed
    ultimately show ?thesis
      using threshold_facts(2) by linarith
  qed
  have B: "of_int (round_half_even (v / pow2 (ulp_exp v))) * pow2 (ulp_exp v) = v"
  proof (cases "v = 0")
    case True
    then show ?thesis by (simp add: round_half_even_def)
  next
    case v0: False
    show ?thesis
    proof (cases "\<bar>m\<bar> < 2 ^ 53")
      case True
      then have "real_of_int \<bar>m\<bar> < real_of_int (2 ^ 53)"
        by (simp only: of_int_less_iff)
      then have "\<bar>v\<bar> < 2 ^ 53 * pow2 e"
        unfolding va by (intro mult_strict_right_mono) simp_all
      then have "\<bar>v\<bar> < pow2 (e + 53)"
        by (simp add: pow2_add pow2_def [of 53] mult.commute)
      then have "ilog2 v < e + 53"
        using v0 by (intro ilog2_less)
      then have "ulp_exp v \<le> e"
        using v0 e_lo by (simp add: ulp_exp_def)
      with v show ?thesis by (rule grid_fixed)
    next
      case False
      with mb have m53: "\<bar>m\<bar> = 2 ^ 53" by simp
      then have "m = 2 ^ 53 \<or> m = - (2 ^ 53)" by linarith
      then have ev: "m = 2 * (m div 2)" by (elim disjE) simp_all
      have v': "v = of_int (m div 2) * pow2 (e + 1)"
        by (subst v, subst ev) (simp add: pow2_add pow2_def [of 1])
      have "\<bar>v\<bar> = 2 ^ 53 * pow2 e"
        unfolding va m53 by simp
      also have "\<dots> = pow2 (e + 53)"
        by (simp add: pow2_add pow2_def [of 53] mult.commute)
      also have "\<dots> < pow2 (e + 54)"
        by (rule pow2_less) simp
      finally have "ilog2 v < e + 54"
        using v0 by (intro ilog2_less)
      then have "ulp_exp v \<le> e + 1"
        using v0 e_lo by (simp add: ulp_exp_def)
      with v' show ?thesis by (rule grid_fixed)
    qed
  qed
  show ?thesis
    using A B by (simp add: rnd_def)
qed


lemma stored_rnd: "stored (json_num (rnd q))"
proof (cases "rnd q")
  case (Fin v)
  then have "is_double v"
    unfolding is_double_def by (rule rnd_idem)
  with Fin show ?thesis by simp
qed simp_all

lemma stored_js_add: "stored (json_num (js_add x y))"
  by (cases "(x, y)" rule: js_add.cases) (simp_all add: stored_rnd)

lemma stored_js_sum: "stored (json_num (js_sum xs))"
proof -
  have "stored (json_num a) \<Longrightarrow> stored (json_num (foldl js_add a xs))" for a
    by (induction xs arbitrary: a) (simp_all add: stored_js_add)
  then show ?thesis
    by (simp add: js_sum_def is_double_def)
qed

lemma stored_recompute:
  "stored (total (json_aggregate (recompute m hs)))"
  "stored (transport (byCategory (json_aggregate (recompute m hs))))"
  "stored (energy (byCategory (json_aggregate (recompute m hs))))"
  "stored (food (byCategory (json_aggregate (recompute m hs))))"
  "stored (shopping (byCategory (json_aggregate (recompute m hs))))"
  "stored (waste (byCategory (json_aggregate (recompute m hs))))"
  by (simp_all add: json_aggregate_def json_by_category_def recompute_def Let_def category_totals
      stored_js_sum)

end
